theory Spec2Isabelle
  imports Complex_Main "HOL-Library.Word"
begin

section \<open>The midjourneyapi client: data model\<close>

text \<open>
  The client of \<^verbatim>\<open>src/midjourneyapi.go\<close> turns a method call into one HTTP
  request and decodes the JSON response. The file holds the text of the client
  twice (lines 1--245 and 246--510). The two texts agree but for
  \<^verbatim>\<open>DescribeResponse\<close> and \<^verbatim>\<open>Describe\<close> (lines 85--129 and 332--394) and for
  \<^verbatim>\<open>escapeQuotes\<close>, which the second text alone declares. Both definitions are
  embedded: \<open>Describe\<close> and \<open>DescribeResponse_fields\<close> are the first,
  \<open>Describe2\<close> and \<open>DescribeResponse2_fields\<close> the second. The two texts are
  two states of one file and no build holds both; the second, with the content
  type \<^verbatim>\<open>image/jpeg\<close> and the response field \<^verbatim>\<open>taskId\<close>, is the one the
  specification describes, and what is stated of \<^verbatim>\<open>Describe\<close> alone is stated of
  it. Line numbers of the other declarations are those of the first text.

  The packages \<^verbatim>\<open>encoding/json\<close>, \<^verbatim>\<open>mime/multipart\<close>, \<^verbatim>\<open>io\<close> and
  \<^verbatim>\<open>net/http\<close> belong to Go's standard library, not to the repository. They
  are modelled at the level of their data: a JSON document is a \<open>json\<close> value, a
  multipart body is the list of its parts, and the network is a function from
  the request to a response or an error.
\<close>

type_synonym bytes = string

text \<open>Go's \<^verbatim>\<open>int\<close> (64 bits on the usual targets) and \<^verbatim>\<open>float64\<close>. The
  client does no arithmetic on either. A \<^verbatim>\<open>float64\<close> is an arbitrary type
  \<open>'f\<close> with a zero; the conversion \<^verbatim>\<open>strconv.ParseFloat\<close> of a JSON number is a
  parameter \<open>pf\<close> of the decoders, \<open>None\<close> when the number is out of range.\<close>

type_synonym goint = "64 word"

datatype error =
    UnsupportedTypeError
  | InvalidURLError
  | SyntaxError
  | EOF
  | UnexpectedEOF
  | UnmarshalTypeError string string
  | IOError string

text \<open>\<open>UnsupportedTypeError\<close>: \<^verbatim>\<open>json.Encoder.Encode\<close> on a value with no JSON
  form. \<open>InvalidURLError\<close>: \<^verbatim>\<open>http.NewRequest\<close>. \<open>SyntaxError\<close>, \<open>EOF\<close>,
  \<open>UnexpectedEOF\<close> and \<open>UnmarshalTypeError value type\<close>: the JSON decoder; the
  first argument is the kind of the JSON value (Go adds the literal of a number
  that is out of range), the second the Go type it did not fit. \<open>IOError\<close>: any
  error the environment produces (the transport, a stream that fails while
  read).

  A JSON document is its value: the members of an object in the order of the
  text, repeated keys kept. In a request, \<open>JString s\<close> is the JSON string the
  encoder writes for the Go string \<open>s\<close>; the escapes of the text, and the
  replacement character it writes for bytes that are not UTF-8, are below this
  model.\<close>

datatype json =
    JNull
  | JBool bool
  | JNumber rat
  | JString string
  | JArray "json list"
  | JObject "(string \<times> json) list"

subsection \<open>Encoding requests: \<^verbatim>\<open>json.Encoder.Encode\<close>\<close>

text \<open>A Go value as the encoder sees it by reflection. A struct is the list of
  its fields in declaration order, each with the name and the \<^verbatim>\<open>omitempty\<close> option
  of its \<^verbatim>\<open>json\<close> tag. \<open>GoFunc\<close> stands for a value the encoder refuses.\<close>

datatype govalue =
    GoString string
  | GoInt goint
  | GoStruct "(string \<times> bool \<times> govalue) list"
  | GoFunc

fun isEmptyValue :: "govalue \<Rightarrow> bool" where
  "isEmptyValue (GoString s) = (length s = 0)"
| "isEmptyValue (GoInt i) = (i = 0)"
| "isEmptyValue (GoStruct fs) = False"
| "isEmptyValue GoFunc = False"

fun Marshal :: "govalue \<Rightarrow> error + json"
  and marshal_fields :: "(string \<times> bool \<times> govalue) list \<Rightarrow> error + (string \<times> json) list" where
  "Marshal (GoString s) = Inr (JString s)"
| "Marshal (GoInt i) = Inr (JNumber (of_int (sint i)))"
| "Marshal GoFunc = Inl UnsupportedTypeError"
| "Marshal (GoStruct fs) =
     (case marshal_fields fs of Inl err \<Rightarrow> Inl err | Inr kvs \<Rightarrow> Inr (JObject kvs))"
| "marshal_fields [] = Inr []"
| "marshal_fields ((name, omitEmpty, v) # fs) =
     (if omitEmpty \<and> isEmptyValue v then marshal_fields fs
      else (case Marshal v of
              Inl err \<Rightarrow> Inl err
            | Inr j \<Rightarrow> (case marshal_fields fs of
                         Inl err \<Rightarrow> Inl err
                       | Inr kvs \<Rightarrow> Inr ((name, j) # kvs))))"

text \<open>\<^verbatim>\<open>Encoder.Encode\<close> writes the document of \<^verbatim>\<open>Marshal\<close> and a newline.\<close>

definition Encoder_Encode :: "govalue \<Rightarrow> error + json" where
  "Encoder_Encode v = Marshal v"

text \<open>The request structs, lines 21--24, 39--43, 147--150, 182--186 and 203--206:
  each function builds the struct from its field values, the tags as declared.\<close>

definition ResultRequest :: "string \<Rightarrow> goint \<Rightarrow> govalue" where
  "ResultRequest TaskId Position =
     GoStruct [(''taskId'', False, GoString TaskId),
               (''position'', True, GoInt Position)]"

definition ImagineRequest :: "string \<Rightarrow> string \<Rightarrow> string \<Rightarrow> govalue" where
  "ImagineRequest Prompt Mode CallbackURL =
     GoStruct [(''prompt'', False, GoString Prompt),
               (''mode'', True, GoString Mode),
               (''callbackURL'', True, GoString CallbackURL)]"

definition SeedRequest :: "string \<Rightarrow> string \<Rightarrow> govalue" where
  "SeedRequest TaskId CallbackURL =
     GoStruct [(''taskId'', False, GoString TaskId),
               (''callbackURL'', False, GoString CallbackURL)]"

definition UpscaleRequest :: "string \<Rightarrow> goint \<Rightarrow> string \<Rightarrow> govalue" where
  "UpscaleRequest TaskId Position CallbackURL =
     GoStruct [(''taskId'', False, GoString TaskId),
               (''position'', False, GoInt Position),
               (''callback_url'', True, GoString CallbackURL)]"

definition FaceswapRequest :: "string \<Rightarrow> string \<Rightarrow> govalue" where
  "FaceswapRequest TargetImageURL FaceImageURL =
     GoStruct [(''targetImageURL'', False, GoString TargetImageURL),
               (''faceImageURL'', False, GoString FaceImageURL)]"

definition ImagineModeFast :: string where
  "ImagineModeFast = ''fast''"

definition ImagineModeTurbo :: string where
  "ImagineModeTurbo = ''turbo''"

subsection \<open>Decoding responses: \<^verbatim>\<open>json.Decoder.Decode\<close> and \<^verbatim>\<open>json.Unmarshal\<close>\<close>

record ImagineResponse =
  ImagineResponse_TaskId :: string

record DescribeResponse =
  DescribeResponse_TaskId :: string

record SeedResponse =
  SeedResponse_TaskId :: string

record UpscaleResponse =
  UpscaleResponse_ImageURL :: string

record FaceswapResponse =
  FaceswapResponse_ImageURL :: string

record 'f ResultResponse =
  Status :: string
  Percentage :: 'f

text \<open>The three result structs embed \<^verbatim>\<open>ResultResponse\<close>: record extension. A
  slice is \<open>None\<close> when it is \<^verbatim>\<open>nil\<close>.\<close>

record 'f ImagineResultResponse = "'f ResultResponse" +
  ImageURL :: string

record 'f DescribeResultResponse = "'f ResultResponse" +
  Content :: "string list option"

record 'f SeedResultResponse = "'f ResultResponse" +
  SeedResultResponse_Seed :: string

text \<open>What the decoder names a JSON value in an \<^verbatim>\<open>UnmarshalTypeError\<close>.\<close>

fun json_kind :: "json \<Rightarrow> string" where
  "json_kind JNull = ''null''"
| "json_kind (JBool b) = ''bool''"
| "json_kind (JNumber n) = ''number''"
| "json_kind (JString s) = ''string''"
| "json_kind (JArray xs) = ''array''"
| "json_kind (JObject kvs) = ''object''"

text \<open>The decoder keeps the first error it meets (\<^verbatim>\<open>saveError\<close>) and goes on.\<close>

fun saveError :: "error option \<Rightarrow> error option \<Rightarrow> error option" where
  "saveError (Some e) later = Some e"
| "saveError None later = later"

text \<open>Storing a JSON value in a field of a struct \<open>'r\<close>: the struct after the
  store and the type error, if the value does not fit the field. \<^verbatim>\<open>null\<close> leaves a
  string or a number as it is and makes a slice \<^verbatim>\<open>nil\<close>.\<close>

type_synonym 'r store = "json \<Rightarrow> 'r \<Rightarrow> 'r \<times> error option"

definition store_string :: "(string \<Rightarrow> 'r \<Rightarrow> 'r) \<Rightarrow> 'r store" where
  "store_string upd j r =
     (case j of
        JString s \<Rightarrow> (upd s r, None)
      | JNull \<Rightarrow> (r, None)
      | _ \<Rightarrow> (r, Some (UnmarshalTypeError (json_kind j) ''string'')))"

definition store_float64 :: "(rat \<Rightarrow> 'f option) \<Rightarrow> ('f \<Rightarrow> 'r \<Rightarrow> 'r) \<Rightarrow> 'r store" where
  "store_float64 pf upd j r =
     (case j of
        JNumber n \<Rightarrow>
          (case pf n of
             Some x \<Rightarrow> (upd x r, None)
           | None \<Rightarrow> (r, Some (UnmarshalTypeError ''number'' ''float64'')))
      | JNull \<Rightarrow> (r, None)
      | _ \<Rightarrow> (r, Some (UnmarshalTypeError (json_kind j) ''float64'')))"

text \<open>The elements of a \<^verbatim>\<open>[]string\<close>: an element that is no string stays empty
  and its type error is saved.\<close>

fun string_elems :: "json list \<Rightarrow> string list \<times> error option" where
  "string_elems [] = ([], None)"
| "string_elems (j # js) =
     (let (s, e) = store_string (\<lambda>s _. s) j [];
          (ss, e') = string_elems js
      in (s # ss, saveError e e'))"

definition store_strings :: "(string list option \<Rightarrow> 'r \<Rightarrow> 'r) \<Rightarrow> 'r store" where
  "store_strings upd j r =
     (case j of
        JArray js \<Rightarrow> (let (ss, e) = string_elems js in (upd (Some ss) r, e))
      | JNull \<Rightarrow> (upd None r, None)
      | _ \<Rightarrow> (r, Some (UnmarshalTypeError (json_kind j) ''[]string'')))"

text \<open>A key of a JSON object names the field whose name it equals, or else the
  field whose name it equals when letter case is ignored. Only the letters
  \<open>a\<close> to \<open>z\<close> are folded here; the fold of a letter outside ASCII onto an ASCII
  one is left out.\<close>

definition toUpper :: "char \<Rightarrow> char" where
  "toUpper c =
     (if of_char (CHR ''a'') \<le> (of_char c :: nat) \<and> (of_char c :: nat) \<le> of_char (CHR ''z'')
      then char_of ((of_char c :: nat) - 32) else c)"

definition foldName :: "string \<Rightarrow> string" where
  "foldName s = map toUpper s"

fun byFoldedName :: "(string \<times> 'a) list \<Rightarrow> string \<Rightarrow> 'a option" where
  "byFoldedName [] key = None"
| "byFoldedName ((name, f) # fs) key =
     (if foldName name = foldName key then Some f else byFoldedName fs key)"

definition find_field :: "(string \<times> 'a) list \<Rightarrow> string \<Rightarrow> 'a option" where
  "find_field flds key =
     (case map_of flds key of
        Some f \<Rightarrow> Some f
      | None \<Rightarrow> byFoldedName flds key)"

text \<open>Decoding an object into a struct: the members in the order of the
  document, a member with no field skipped, a member that does not fit its
  field skipped with its error saved.\<close>

fun decode_object :: "(string \<times> 'r store) list \<Rightarrow> (string \<times> json) list \<Rightarrow> 'r \<Rightarrow> 'r \<times> error option" where
  "decode_object flds [] r = (r, None)"
| "decode_object flds ((key, v) # kvs) r =
     (case find_field flds key of
        None \<Rightarrow> decode_object flds kvs r
      | Some store \<Rightarrow>
          (let (r', e) = store v r;
               (r'', e') = decode_object flds kvs r'
           in (r'', saveError e e')))"

definition unmarshal :: "(string \<times> 'r store) list \<Rightarrow> string \<Rightarrow> 'r store" where
  "unmarshal flds tyname j r =
     (case j of
        JObject kvs \<Rightarrow> decode_object flds kvs r
      | JNull \<Rightarrow> (r, None)
      | _ \<Rightarrow> (r, Some (UnmarshalTypeError (json_kind j) tyname)))"

text \<open>The response structs, lines 26--29, 45--47, 68--71, 85--87, 131--134,
  152--154, 166--169, 188--190, 208--210 and 332--334: the decoder's table of
  fields, by tag, or by the field's name where it has no tag.\<close>

definition ImagineResponse_fields :: "(string \<times> ImagineResponse store) list" where
  "ImagineResponse_fields =
     [(''taskId'', store_string (\<lambda>s r. r\<lparr>ImagineResponse_TaskId := s\<rparr>))]"

definition DescribeResponse_fields :: "(string \<times> DescribeResponse store) list" where
  "DescribeResponse_fields =
     [(''task_id'', store_string (\<lambda>s r. r\<lparr>DescribeResponse_TaskId := s\<rparr>))]"

definition DescribeResponse2_fields :: "(string \<times> DescribeResponse store) list" where
  "DescribeResponse2_fields =
     [(''taskId'', store_string (\<lambda>s r. r\<lparr>DescribeResponse_TaskId := s\<rparr>))]"

definition SeedResponse_fields :: "(string \<times> SeedResponse store) list" where
  "SeedResponse_fields =
     [(''TaskId'', store_string (\<lambda>s r. r\<lparr>SeedResponse_TaskId := s\<rparr>))]"

definition UpscaleResponse_fields :: "(string \<times> UpscaleResponse store) list" where
  "UpscaleResponse_fields =
     [(''imageURL'', store_string (\<lambda>s r. r\<lparr>UpscaleResponse_ImageURL := s\<rparr>))]"

definition FaceswapResponse_fields :: "(string \<times> FaceswapResponse store) list" where
  "FaceswapResponse_fields =
     [(''imageURL'', store_string (\<lambda>s r. r\<lparr>FaceswapResponse_ImageURL := s\<rparr>))]"

definition ResultResponse_fields ::
  "(rat \<Rightarrow> 'f option) \<Rightarrow> (string \<times> ('f, 'z) ResultResponse_scheme store) list" where
  "ResultResponse_fields pf =
     [(''status'', store_string (\<lambda>s r. r\<lparr>Status := s\<rparr>)),
      (''percentage'', store_float64 pf (\<lambda>x r. r\<lparr>Percentage := x\<rparr>))]"

definition ImagineResultResponse_fields ::
  "(rat \<Rightarrow> 'f option) \<Rightarrow> (string \<times> 'f ImagineResultResponse store) list" where
  "ImagineResultResponse_fields pf =
     ResultResponse_fields pf @
     [(''image_url'', store_string (\<lambda>s r. r\<lparr>ImageURL := s\<rparr>))]"

definition DescribeResultResponse_fields ::
  "(rat \<Rightarrow> 'f option) \<Rightarrow> (string \<times> 'f DescribeResultResponse store) list" where
  "DescribeResultResponse_fields pf =
     ResultResponse_fields pf @
     [(''content'', store_strings (\<lambda>ss r. r\<lparr>Content := ss\<rparr>))]"

definition SeedResultResponse_fields ::
  "(rat \<Rightarrow> 'f option) \<Rightarrow> (string \<times> 'f SeedResultResponse store) list" where
  "SeedResultResponse_fields pf =
     ResultResponse_fields pf @
     [(''seed'', store_string (\<lambda>s r. r\<lparr>SeedResultResponse_Seed := s\<rparr>))]"

section \<open>The environment: HTTP, streams, multipart bodies\<close>

text \<open>An \<^verbatim>\<open>io.Reader\<close> handed to \<^verbatim>\<open>Describe\<close>: the bytes it delivers, and the
  error that ends it, \<open>None\<close> for a clean end of file.\<close>

datatype reader = Reader bytes "error option"

text \<open>A part of a multipart body and the \<^verbatim>\<open>multipart.Writer\<close> that builds the
  body in its buffer: the boundary, the parts written so far in order, and
  whether the closing boundary has been written. Writing to a
  \<^verbatim>\<open>bytes.Buffer\<close> never fails, so no function of the writer returns an error
  here; the results keep the error of the Go signatures.\<close>

record part =
  PartHeader :: "string \<rightharpoonup> string"
  PartData :: bytes

record Writer =
  boundary :: string
  parts :: "part list"
  closed :: bool

definition NewWriter :: "string \<Rightarrow> Writer" where
  "NewWriter b = \<lparr>boundary = b, parts = [], closed = False\<rparr>"

definition CreatePart :: "(string \<rightharpoonup> string) \<Rightarrow> Writer \<Rightarrow> error + Writer" where
  "CreatePart h mw = Inr (mw\<lparr>parts := parts mw @ [\<lparr>PartHeader = h, PartData = []\<rparr>]\<rparr>)"

text \<open>Lines 336--340, \<^verbatim>\<open>quoteEscaper\<close> and \<^verbatim>\<open>escapeQuotes\<close>: a backslash and a
  double quote each get a backslash in front. \<^verbatim>\<open>mime/multipart\<close> has the same
  function and calls it on the names of a form field.\<close>

definition escapeQuotes :: "string \<Rightarrow> string" where
  "escapeQuotes s =
     concat (map (\<lambda>c. if c = CHR 0x5C then [CHR 0x5C, CHR 0x5C]
                       else if c = CHR 0x22 then [CHR 0x5C, CHR 0x22]
                       else [c]) s)"

definition CreateFormFile :: "string \<Rightarrow> string \<Rightarrow> Writer \<Rightarrow> error + Writer" where
  \<open>CreateFormFile fieldname filename mw =
     CreatePart
       [''Content-Disposition'' \<mapsto>
          ''form-data; name="'' @ escapeQuotes fieldname @
          ''"; filename="'' @ escapeQuotes filename @ ''"'',
        ''Content-Type'' \<mapsto> ''application/octet-stream'']
       mw\<close>

definition CreateFormField :: "string \<Rightarrow> Writer \<Rightarrow> error + Writer" where
  \<open>CreateFormField fieldname mw =
     CreatePart
       [''Content-Disposition'' \<mapsto> ''form-data; name="'' @ escapeQuotes fieldname @ ''"'']
       mw\<close>

text \<open>A write through the \<^verbatim>\<open>io.Writer\<close> of the part created last.\<close>

definition part_Write :: "bytes \<Rightarrow> Writer \<Rightarrow> Writer" where
  "part_Write p mw =
     (case rev (parts mw) of
        [] \<Rightarrow> mw
      | cur # earlier \<Rightarrow> mw\<lparr>parts := rev earlier @ [cur\<lparr>PartData := PartData cur @ p\<rparr>]\<rparr>)"

definition WriteField :: "string \<Rightarrow> string \<Rightarrow> Writer \<Rightarrow> error + Writer" where
  "WriteField fieldname v mw =
     (case CreateFormField fieldname mw of
        Inl err \<Rightarrow> Inl err
      | Inr mw' \<Rightarrow> Inr (part_Write v mw'))"

definition Close :: "Writer \<Rightarrow> error + Writer" where
  "Close mw = Inr (mw\<lparr>closed := True\<rparr>)"

text \<open>\<^verbatim>\<open>io.Copy\<close> into the current part: what the reader delivered is written,
  and the reader's error, if any, is the error of the copy.\<close>

fun io_Copy :: "Writer \<Rightarrow> reader \<Rightarrow> Writer \<times> error option" where
  "io_Copy mw (Reader p failure) = (part_Write p mw, failure)"

definition FormDataContentType :: "Writer \<Rightarrow> string" where
  \<open>FormDataContentType mw =
     (let b = boundary mw;
          b = (if list_ex (\<lambda>c. c \<in> set (''()<>@,;:"/[]?= '' @ [CHR 0x5C])) b
               then ''"'' @ b @ ''"'' else b)
      in ''multipart/form-data; boundary='' @ b)\<close>

text \<open>An HTTP request as the client builds it, and the response. The body of a
  response is read as a stream: the document its bytes hold, and the error
  that ends the stream, if any. The bytes are \<open>Empty\<close> (nothing but white
  space), \<open>Invalid\<close> (no JSON value starts them), \<open>Truncated\<close> (they stop inside
  a value) or a complete \<open>Value\<close>, after which only white space follows
  (\<open>Clean\<close>) or more data (\<open>Junk\<close>).\<close>

datatype reqbody = JSONBody json | MultipartBody Writer

record request =
  Method :: string
  URL :: string
  Header :: "string \<rightharpoonup> string"
  ReqBody :: reqbody

datatype tail = Clean | Junk

datatype document = Empty | Invalid | Truncated | Value json tail

datatype resbody = ResBody document "error option"

record response =
  StatusCode :: int
  Body :: resbody

text \<open>\<^verbatim>\<open>http.DefaultClient.Do\<close>: the network answers a request with a response
  or with an error.\<close>

type_synonym transport = "request \<Rightarrow> error + response"

definition host :: string where
  "host = ''https://api.midjourneyapi.io/v2''"

definition MethodPost :: string where
  "MethodPost = ''POST''"

text \<open>\<^verbatim>\<open>http.NewRequest\<close> parses the URL; of its checks, the one on control
  bytes is modelled. No URL of this client has one.\<close>

definition isCTL :: "char \<Rightarrow> bool" where
  "isCTL c = ((of_char c :: nat) < 32 \<or> (of_char c :: nat) = 127)"

definition NewRequest :: "string \<Rightarrow> string \<Rightarrow> reqbody \<Rightarrow> error + request" where
  "NewRequest method url body =
     (if list_ex isCTL url then Inl InvalidURLError
      else Inr \<lparr>Method = method, URL = url, Header = Map.empty, ReqBody = body\<rparr>)"

definition Header_Set :: "string \<Rightarrow> string \<Rightarrow> request \<Rightarrow> request" where
  "Header_Set k v req = req\<lparr>Header := (Header req)(k \<mapsto> v)\<rparr>"

text \<open>\<^verbatim>\<open>json.NewDecoder(body).Decode\<close> reads one value from the stream and
  stops there. \<^verbatim>\<open>io.ReadAll\<close> reads the stream to its end, and
  \<^verbatim>\<open>json.Unmarshal\<close> accepts one value with nothing but white space after it.\<close>

fun Decoder_Decode :: "'r store \<Rightarrow> resbody \<Rightarrow> 'r \<Rightarrow> 'r \<times> error option" where
  "Decoder_Decode um (ResBody Invalid ending) r = (r, Some SyntaxError)"
| "Decoder_Decode um (ResBody Empty None) r = (r, Some EOF)"
| "Decoder_Decode um (ResBody Empty (Some err)) r = (r, Some err)"
| "Decoder_Decode um (ResBody Truncated None) r = (r, Some UnexpectedEOF)"
| "Decoder_Decode um (ResBody Truncated (Some err)) r = (r, Some err)"
| "Decoder_Decode um (ResBody (Value v t) ending) r = um v r"

fun ReadAll :: "resbody \<Rightarrow> error + document" where
  "ReadAll (ResBody d None) = Inr d"
| "ReadAll (ResBody d (Some err)) = Inl err"

fun json_Unmarshal :: "'r store \<Rightarrow> document \<Rightarrow> 'r \<Rightarrow> 'r \<times> error option" where
  "json_Unmarshal um (Value v Clean) r = um v r"
| "json_Unmarshal um (Value v Junk) r = (r, Some SyntaxError)"
| "json_Unmarshal um Empty r = (r, Some SyntaxError)"
| "json_Unmarshal um Invalid r = (r, Some SyntaxError)"
| "json_Unmarshal um Truncated r = (r, Some SyntaxError)"

section \<open>The client\<close>

record Client =
  apiKey :: string

definition NewClient :: "string \<Rightarrow> Client" where
  "NewClient k = \<lparr>apiKey = k\<rparr>"

text \<open>Lines 49--55. The zero value of the type parameter is the argument
  \<open>zero\<close>: the empty string or 0.\<close>

definition getArrayFirstOrEmpty :: "'a \<Rightarrow> 'a list \<Rightarrow> 'a" where
  "getArrayFirstOrEmpty zero a =
     (let r = zero in if length a \<ge> 1 then a ! 0 else r)"

text \<open>Every operation returns its two results and, third, the requests it
  handed to the transport, in order.

  Lines 222--245, \<open>postJson\<close>. The argument \<open>um\<close> decodes a JSON value into the
  struct that \<^verbatim>\<open>response\<close> points to; the struct after the call is the first
  result.\<close>

definition postJson ::
  "Client \<Rightarrow> transport \<Rightarrow> string \<Rightarrow> govalue \<Rightarrow> 'r store \<Rightarrow> 'r \<Rightarrow> 'r \<times> error option \<times> request list" where
  "postJson self Do path req_value um resp =
     (case Encoder_Encode req_value of
        Inl err \<Rightarrow> (resp, Some err, [])
      | Inr body \<Rightarrow>
          (case NewRequest MethodPost (host @ path) (JSONBody body) of
             Inl err \<Rightarrow> (resp, Some err, [])
           | Inr req0 \<Rightarrow>
               (let req = Header_Set ''Authorization'' (apiKey self)
                            (Header_Set ''Content-Type'' ''application/json'' req0)
                in (case Do req of
                      Inl err \<Rightarrow> (resp, Some err, [req])
                    | Inr res \<Rightarrow>
                        (case Decoder_Decode um (Body res) resp of
                           (resp', Some err) \<Rightarrow> (resp', Some err, [req])
                         | (resp', None) \<Rightarrow> (resp', None, [req]))))))"

text \<open>Lines 57--66.\<close>

definition Imagine ::
  "Client \<Rightarrow> transport \<Rightarrow> string \<Rightarrow> string \<Rightarrow> string list \<Rightarrow> string \<times> error option \<times> request list" where
  "Imagine self Do prompt mode callbackURL =
     (let result = \<lparr>ImagineResponse_TaskId = ''''\<rparr>;
          (result, err, sent) =
            postJson self Do ''/imagine''
              (ImagineRequest prompt mode (getArrayFirstOrEmpty '''' callbackURL))
              (unmarshal ImagineResponse_fields ''ImagineResponse'') result
      in (ImagineResponse_TaskId result, err, sent))"

text \<open>Lines 73--83. The result is a pointer: \<open>None\<close> is \<^verbatim>\<open>nil\<close>.\<close>

definition ImagineResult ::
  "(rat \<Rightarrow> 'f option) \<Rightarrow> Client \<Rightarrow> transport \<Rightarrow> string \<Rightarrow> goint list \<Rightarrow>
     ('f::zero) ImagineResultResponse option \<times> error option \<times> request list" where
  "ImagineResult pf self Do taskId position =
     (let result = \<lparr>Status = '''', Percentage = 0, ImageURL = ''''\<rparr>
      in (case postJson self Do ''/result''
                 (ResultRequest taskId (getArrayFirstOrEmpty 0 position))
                 (unmarshal (ImagineResultResponse_fields pf) ''ImagineResultResponse'') result of
            (result, Some err, sent) \<Rightarrow> (None, Some err, sent)
          | (result, None, sent) \<Rightarrow> (Some result, None, sent)))"

text \<open>Lines 89--129, the first \<^verbatim>\<open>Describe\<close>. The boundary that
  \<^verbatim>\<open>multipart.NewWriter\<close> draws at random is the argument \<open>bnd\<close>.\<close>

definition Describe ::
  "Client \<Rightarrow> transport \<Rightarrow> string \<Rightarrow> reader \<Rightarrow> string list \<Rightarrow> string \<times> error option \<times> request list" where
  "Describe self Do bnd img callbackURL =
     (let mw = NewWriter bnd in
      case CreateFormFile ''image'' ''image.jpg'' mw of
        Inl err \<Rightarrow> ('''', Some err, [])
      | Inr mw \<Rightarrow>
      (case io_Copy mw img of
        (mw, Some err) \<Rightarrow> ('''', Some err, [])
      | (mw, None) \<Rightarrow>
      (case (if length callbackURL \<ge> 1 then WriteField ''callbackURL'' (callbackURL ! 0) mw
             else Inr mw) of
        Inl err \<Rightarrow> ('''', Some err, [])
      | Inr mw \<Rightarrow>
      (case Close mw of
        Inl err \<Rightarrow> ('''', Some err, [])
      | Inr mw \<Rightarrow>
      (case NewRequest MethodPost (host @ ''/describe'') (MultipartBody mw) of
        Inl err \<Rightarrow> ('''', Some err, [])
      | Inr req0 \<Rightarrow>
      (let req = Header_Set ''Authorization'' (apiKey self)
                   (Header_Set ''Content-Type'' (FormDataContentType mw) req0) in
       case Do req of
        Inl err \<Rightarrow> ('''', Some err, [req])
      | Inr res \<Rightarrow>
      (let result = \<lparr>DescribeResponse_TaskId = ''''\<rparr> in
       case Decoder_Decode (unmarshal DescribeResponse_fields ''DescribeResponse'')
              (Body res) result of
        (result, Some err) \<Rightarrow> ('''', Some err, [req])
      | (result, None) \<Rightarrow> (DescribeResponse_TaskId result, None, [req]))))))))"

text \<open>Lines 342--394, the second \<^verbatim>\<open>Describe\<close>: the part is created with its
  own header, and the response is read whole before it is decoded.\<close>

definition Describe2 ::
  "Client \<Rightarrow> transport \<Rightarrow> string \<Rightarrow> reader \<Rightarrow> string list \<Rightarrow> string \<times> error option \<times> request list" where
  \<open>Describe2 self Do bnd img callbackURL =
     (let mw = NewWriter bnd;
          h = Map.empty;
          h = h(''Content-Disposition'' \<mapsto> ''form-data; name="image"; filename="image.jpg"'');
          h = h(''Content-Type'' \<mapsto> ''image/jpeg'') in
      case CreatePart h mw of
        Inl err \<Rightarrow> ('''', Some err, [])
      | Inr mw \<Rightarrow>
      (case io_Copy mw img of
        (mw, Some err) \<Rightarrow> ('''', Some err, [])
      | (mw, None) \<Rightarrow>
      (case (if length callbackURL \<ge> 1 then WriteField ''callbackURL'' (callbackURL ! 0) mw
             else Inr mw) of
        Inl err \<Rightarrow> ('''', Some err, [])
      | Inr mw \<Rightarrow>
      (case Close mw of
        Inl err \<Rightarrow> ('''', Some err, [])
      | Inr mw \<Rightarrow>
      (case NewRequest MethodPost (host @ ''/describe'') (MultipartBody mw) of
        Inl err \<Rightarrow> ('''', Some err, [])
      | Inr req0 \<Rightarrow>
      (let req = Header_Set ''Authorization'' (apiKey self)
                   (Header_Set ''Content-Type'' (FormDataContentType mw) req0) in
       case Do req of
        Inl err \<Rightarrow> ('''', Some err, [req])
      | Inr res \<Rightarrow>
      (case ReadAll (Body res) of
        Inl err \<Rightarrow> ('''', Some err, [req])
      | Inr resbody \<Rightarrow>
      (let result = \<lparr>DescribeResponse_TaskId = ''''\<rparr> in
       case json_Unmarshal (unmarshal DescribeResponse2_fields ''DescribeResponse'')
              resbody result of
        (result, Some err) \<Rightarrow> ('''', Some err, [req])
      | (result, None) \<Rightarrow> (DescribeResponse_TaskId result, None, [req])))))))))\<close>

text \<open>Lines 136--145.\<close>

definition DescribeResult ::
  "(rat \<Rightarrow> 'f option) \<Rightarrow> Client \<Rightarrow> transport \<Rightarrow> string \<Rightarrow>
     ('f::zero) DescribeResultResponse option \<times> error option \<times> request list" where
  "DescribeResult pf self Do taskId =
     (let result = \<lparr>Status = '''', Percentage = 0, Content = None\<rparr>
      in (case postJson self Do ''/result''
                 (ResultRequest taskId 0)
                 (unmarshal (DescribeResultResponse_fields pf) ''DescribeResultResponse'') result of
            (result, Some err, sent) \<Rightarrow> (None, Some err, sent)
          | (result, None, sent) \<Rightarrow> (Some result, None, sent)))"

text \<open>Lines 156--164.\<close>

definition Seed ::
  "Client \<Rightarrow> transport \<Rightarrow> string \<Rightarrow> string list \<Rightarrow> string \<times> error option \<times> request list" where
  "Seed self Do taskId callbackURL =
     (let result = \<lparr>SeedResponse_TaskId = ''''\<rparr>;
          (result, err, sent) =
            postJson self Do ''/seed''
              (SeedRequest taskId (getArrayFirstOrEmpty '''' callbackURL))
              (unmarshal SeedResponse_fields ''SeedResponse'') result
      in (SeedResponse_TaskId result, err, sent))"

text \<open>Lines 171--180.\<close>

definition SeedResult ::
  "(rat \<Rightarrow> 'f option) \<Rightarrow> Client \<Rightarrow> transport \<Rightarrow> string \<Rightarrow>
     ('f::zero) SeedResultResponse option \<times> error option \<times> request list" where
  "SeedResult pf self Do taskId =
     (let result = \<lparr>Status = '''', Percentage = 0, SeedResultResponse_Seed = ''''\<rparr>
      in (case postJson self Do ''/result''
                 (ResultRequest taskId 0)
                 (unmarshal (SeedResultResponse_fields pf) ''SeedResultResponse'') result of
            (result, Some err, sent) \<Rightarrow> (None, Some err, sent)
          | (result, None, sent) \<Rightarrow> (Some result, None, sent)))"

text \<open>Lines 192--201.\<close>

definition Upscale ::
  "Client \<Rightarrow> transport \<Rightarrow> string \<Rightarrow> goint \<Rightarrow> string list \<Rightarrow> string \<times> error option \<times> request list" where
  "Upscale self Do taskId position callbackURL =
     (let result = \<lparr>UpscaleResponse_ImageURL = ''''\<rparr>;
          (result, err, sent) =
            postJson self Do ''/upscale''
              (UpscaleRequest taskId position (getArrayFirstOrEmpty '''' callbackURL))
              (unmarshal UpscaleResponse_fields ''UpscaleResponse'') result
      in (UpscaleResponse_ImageURL result, err, sent))"

text \<open>Lines 212--220.\<close>

definition Faceswap ::
  "Client \<Rightarrow> transport \<Rightarrow> string \<Rightarrow> string \<Rightarrow> string \<times> error option \<times> request list" where
  "Faceswap self Do targetImageURL faceImageURL =
     (let result = \<lparr>FaceswapResponse_ImageURL = ''''\<rparr>;
          (result, err, sent) =
            postJson self Do ''/faceswap''
              (FaceswapRequest targetImageURL faceImageURL)
              (unmarshal FaceswapResponse_fields ''FaceswapResponse'') result
      in (FaceswapResponse_ImageURL result, err, sent))"

section \<open>Concrete environments and the requests that are sent\<close>

text \<open>The three components of an operation's outcome.\<close>

definition result_of :: "'a \<times> error option \<times> request list \<Rightarrow> 'a" where
  "result_of out = fst out"

definition error_of :: "'a \<times> error option \<times> request list \<Rightarrow> error option" where
  "error_of out = fst (snd out)"

definition sent :: "'a \<times> error option \<times> request list \<Rightarrow> request list" where
  "sent out = snd (snd out)"

text \<open>Two transports for concrete runs: one that fails, and one that answers
  every request with a status code and a JSON document.\<close>

definition refuse :: transport where
  "refuse req = Inl (IOError ''connection refused'')"

definition reply :: "int \<Rightarrow> json \<Rightarrow> transport" where
  "reply sc j req = Inr \<lparr>StatusCode = sc, Body = ResBody (Value j Clean) None\<rparr>"

text \<open>A transport with every status code replaced.\<close>

definition with_status :: "int \<Rightarrow> transport \<Rightarrow> transport" where
  "with_status sc Do req =
     (case Do req of Inl err \<Rightarrow> Inl err | Inr res \<Rightarrow> Inr (res\<lparr>StatusCode := sc\<rparr>))"

text \<open>The request \<open>postJson\<close> hands to the transport for a path and an encoded
  body.\<close>

definition json_request :: "Client \<Rightarrow> string \<Rightarrow> json \<Rightarrow> request" where
  "json_request self path body =
     \<lparr>Method = MethodPost, URL = host @ path,
      Header = [''Content-Type'' \<mapsto> ''application/json'', ''Authorization'' \<mapsto> apiKey self],
      ReqBody = JSONBody body\<rparr>"

text \<open>The request either \<^verbatim>\<open>Describe\<close> hands to the transport for a finished
  multipart body.\<close>

definition form_request :: "Client \<Rightarrow> Writer \<Rightarrow> request" where
  "form_request self mw =
     \<lparr>Method = MethodPost, URL = host @ ''/describe'',
      Header = [''Content-Type'' \<mapsto> FormDataContentType mw, ''Authorization'' \<mapsto> apiKey self],
      ReqBody = MultipartBody mw\<rparr>"

text \<open>The JSON bodies of the five request structs.\<close>

definition ImagineBody :: "string \<Rightarrow> string \<Rightarrow> string \<Rightarrow> json" where
  "ImagineBody p m c =
     JObject ([(''prompt'', JString p)] @
              (if m = [] then [] else [(''mode'', JString m)]) @
              (if c = [] then [] else [(''callbackURL'', JString c)]))"

definition ResultBody :: "string \<Rightarrow> goint \<Rightarrow> json" where
  "ResultBody t n =
     JObject ([(''taskId'', JString t)] @
              (if n = 0 then [] else [(''position'', JNumber (of_int (sint n)))]))"

definition SeedBody :: "string \<Rightarrow> string \<Rightarrow> json" where
  "SeedBody t c = JObject [(''taskId'', JString t), (''callbackURL'', JString c)]"

definition UpscaleBody :: "string \<Rightarrow> goint \<Rightarrow> string \<Rightarrow> json" where
  "UpscaleBody t n c =
     JObject ([(''taskId'', JString t), (''position'', JNumber (of_int (sint n)))] @
              (if c = [] then [] else [(''callback_url'', JString c)]))"

definition FaceswapBody :: "string \<Rightarrow> string \<Rightarrow> json" where
  "FaceswapBody t f = JObject [(''targetImageURL'', JString t), (''faceImageURL'', JString f)]"

text \<open>The multipart body of either \<^verbatim>\<open>Describe\<close>: the image part with the given
  content type, then the form field of the callback URL if one was passed.\<close>

definition image_part :: "string \<Rightarrow> bytes \<Rightarrow> part" where
  \<open>image_part ctype p =
     \<lparr>PartHeader = [''Content-Disposition'' \<mapsto> ''form-data; name="image"; filename="image.jpg"'',
                    ''Content-Type'' \<mapsto> ctype],
      PartData = p\<rparr>\<close>

definition field_part :: "string \<Rightarrow> part" where
  \<open>field_part v =
     \<lparr>PartHeader = [''Content-Disposition'' \<mapsto> ''form-data; name="callbackURL"''],
      PartData = v\<rparr>\<close>

definition describe_body :: "string \<Rightarrow> string \<Rightarrow> bytes \<Rightarrow> string list \<Rightarrow> Writer" where
  "describe_body ctype bnd p callbackURL =
     \<lparr>boundary = bnd,
      parts = image_part ctype p # (case callbackURL of [] \<Rightarrow> [] | c # _ \<Rightarrow> [field_part c]),
      closed = True\<rparr>"

text \<open>The member of a JSON request body under a key, \<open>None\<close> when the body has no
  such member.\<close>

fun body_member :: "string \<Rightarrow> reqbody \<Rightarrow> json option" where
  "body_member k (JSONBody (JObject kvs)) = map_of kvs k"
| "body_member k other = None"

text \<open>The parts of a multipart request body.\<close>

fun body_parts :: "reqbody \<Rightarrow> part list" where
  "body_parts (MultipartBody mw) = parts mw"
| "body_parts (JSONBody j) = []"

section \<open>What each operation does, step by step\<close>

lemma getArrayFirstOrEmpty_Nil: "getArrayFirstOrEmpty z [] = z"
  by (simp add: getArrayFirstOrEmpty_def)

lemma getArrayFirstOrEmpty_Cons: "getArrayFirstOrEmpty z (x # xs) = x"
  by (simp add: getArrayFirstOrEmpty_def)

lemma Encode_ImagineRequest: "Encoder_Encode (ImagineRequest p m c) = Inr (ImagineBody p m c)"
  by (simp add: Encoder_Encode_def ImagineRequest_def ImagineBody_def)

lemma Encode_ResultRequest: "Encoder_Encode (ResultRequest t n) = Inr (ResultBody t n)"
  by (simp add: Encoder_Encode_def ResultRequest_def ResultBody_def)

lemma Encode_SeedRequest: "Encoder_Encode (SeedRequest t c) = Inr (SeedBody t c)"
  by (simp add: Encoder_Encode_def SeedRequest_def SeedBody_def)

lemma Encode_UpscaleRequest: "Encoder_Encode (UpscaleRequest t n c) = Inr (UpscaleBody t n c)"
  by (simp add: Encoder_Encode_def UpscaleRequest_def UpscaleBody_def)

lemma Encode_FaceswapRequest: "Encoder_Encode (FaceswapRequest t f) = Inr (FaceswapBody t f)"
  by (simp add: Encoder_Encode_def FaceswapRequest_def FaceswapBody_def)

lemma host_clean: "\<not> list_ex isCTL host"
  unfolding host_def by (simp add: isCTL_def)

lemma NewRequest_host:
  "\<not> list_ex isCTL path \<Longrightarrow>
   NewRequest m (host @ path) b = Inr \<lparr>Method = m, URL = host @ path, Header = Map.empty, ReqBody = b\<rparr>"
  by (simp add: NewRequest_def host_clean)

lemma postJson_encoded:
  assumes "Encoder_Encode v = Inr body" and "\<not> list_ex isCTL path"
  shows "postJson self Do path v um r =
    (case Do (json_request self path body) of
       Inl err \<Rightarrow> (r, Some err, [json_request self path body])
     | Inr res \<Rightarrow> (fst (Decoder_Decode um (Body res) r), snd (Decoder_Decode um (Body res) r),
                   [json_request self path body]))"
  using assms
  by (simp add: postJson_def NewRequest_host Header_Set_def json_request_def Let_def
      split: sum.splits prod.splits option.splits)

lemma Imagine_steps:
  "Imagine self Do p m cbs =
    (let req = json_request self ''/imagine'' (ImagineBody p m (getArrayFirstOrEmpty '''' cbs));
         zero = \<lparr>ImagineResponse_TaskId = ''''\<rparr>;
         um = unmarshal ImagineResponse_fields ''ImagineResponse''
     in case Do req of
          Inl err \<Rightarrow> ('''', Some err, [req])
        | Inr res \<Rightarrow> (ImagineResponse_TaskId (fst (Decoder_Decode um (Body res) zero)),
                      snd (Decoder_Decode um (Body res) zero), [req]))"
  by (simp add: Imagine_def postJson_encoded [OF Encode_ImagineRequest] isCTL_def Let_def
      split: sum.splits)

lemma Seed_steps:
  "Seed self Do t cbs =
    (let req = json_request self ''/seed'' (SeedBody t (getArrayFirstOrEmpty '''' cbs));
         zero = \<lparr>SeedResponse_TaskId = ''''\<rparr>;
         um = unmarshal SeedResponse_fields ''SeedResponse''
     in case Do req of
          Inl err \<Rightarrow> ('''', Some err, [req])
        | Inr res \<Rightarrow> (SeedResponse_TaskId (fst (Decoder_Decode um (Body res) zero)),
                      snd (Decoder_Decode um (Body res) zero), [req]))"
  by (simp add: Seed_def postJson_encoded [OF Encode_SeedRequest] isCTL_def Let_def
      split: sum.splits)

lemma Upscale_steps:
  "Upscale self Do t n cbs =
    (let req = json_request self ''/upscale'' (UpscaleBody t n (getArrayFirstOrEmpty '''' cbs));
         zero = \<lparr>UpscaleResponse_ImageURL = ''''\<rparr>;
         um = unmarshal UpscaleResponse_fields ''UpscaleResponse''
     in case Do req of
          Inl err \<Rightarrow> ('''', Some err, [req])
        | Inr res \<Rightarrow> (UpscaleResponse_ImageURL (fst (Decoder_Decode um (Body res) zero)),
                      snd (Decoder_Decode um (Body res) zero), [req]))"
  by (simp add: Upscale_def postJson_encoded [OF Encode_UpscaleRequest] isCTL_def Let_def
      split: sum.splits)

lemma Faceswap_steps:
  "Faceswap self Do t f =
    (let req = json_request self ''/faceswap'' (FaceswapBody t f);
         zero = \<lparr>FaceswapResponse_ImageURL = ''''\<rparr>;
         um = unmarshal FaceswapResponse_fields ''FaceswapResponse''
     in case Do req of
          Inl err \<Rightarrow> ('''', Some err, [req])
        | Inr res \<Rightarrow> (FaceswapResponse_ImageURL (fst (Decoder_Decode um (Body res) zero)),
                      snd (Decoder_Decode um (Body res) zero), [req]))"
  by (simp add: Faceswap_def postJson_encoded [OF Encode_FaceswapRequest] isCTL_def Let_def
      split: sum.splits)

lemma ImagineResult_steps:
  "ImagineResult pf self Do t ps =
    (let req = json_request self ''/result'' (ResultBody t (getArrayFirstOrEmpty 0 ps));
         zero = \<lparr>Status = '''', Percentage = 0, ImageURL = ''''\<rparr>;
         um = unmarshal (ImagineResultResponse_fields pf) ''ImagineResultResponse''
     in case Do req of
          Inl err \<Rightarrow> (None, Some err, [req])
        | Inr res \<Rightarrow>
            (case snd (Decoder_Decode um (Body res) zero) of
               Some err \<Rightarrow> (None, Some err, [req])
             | None \<Rightarrow> (Some (fst (Decoder_Decode um (Body res) zero)), None, [req])))"
  by (simp add: ImagineResult_def postJson_encoded [OF Encode_ResultRequest] isCTL_def Let_def
      split: sum.splits option.splits)

lemma DescribeResult_steps:
  "DescribeResult pf self Do t =
    (let req = json_request self ''/result'' (ResultBody t 0);
         zero = \<lparr>Status = '''', Percentage = 0, Content = None\<rparr>;
         um = unmarshal (DescribeResultResponse_fields pf) ''DescribeResultResponse''
     in case Do req of
          Inl err \<Rightarrow> (None, Some err, [req])
        | Inr res \<Rightarrow>
            (case snd (Decoder_Decode um (Body res) zero) of
               Some err \<Rightarrow> (None, Some err, [req])
             | None \<Rightarrow> (Some (fst (Decoder_Decode um (Body res) zero)), None, [req])))"
  by (simp add: DescribeResult_def postJson_encoded [OF Encode_ResultRequest] isCTL_def Let_def
      split: sum.splits option.splits)

lemma SeedResult_steps:
  "SeedResult pf self Do t =
    (let req = json_request self ''/result'' (ResultBody t 0);
         zero = \<lparr>Status = '''', Percentage = 0, SeedResultResponse_Seed = ''''\<rparr>;
         um = unmarshal (SeedResultResponse_fields pf) ''SeedResultResponse''
     in case Do req of
          Inl err \<Rightarrow> (None, Some err, [req])
        | Inr res \<Rightarrow>
            (case snd (Decoder_Decode um (Body res) zero) of
               Some err \<Rightarrow> (None, Some err, [req])
             | None \<Rightarrow> (Some (fst (Decoder_Decode um (Body res) zero)), None, [req])))"
  by (simp add: SeedResult_def postJson_encoded [OF Encode_ResultRequest] isCTL_def Let_def
      split: sum.splits option.splits)

lemma CreateFormFile_image:
  "CreateFormFile ''image'' ''image.jpg'' (NewWriter bnd) =
     Inr \<lparr>boundary = bnd, parts = [image_part ''application/octet-stream'' [] ], closed = False\<rparr>"
  by (simp add: CreateFormFile_def CreatePart_def NewWriter_def escapeQuotes_def image_part_def)

lemma CreatePart_image:
  \<open>CreatePart [''Content-Disposition'' \<mapsto> ''form-data; name="image"; filename="image.jpg"'',
               ''Content-Type'' \<mapsto> ''image/jpeg''] (NewWriter bnd) =
     Inr \<lparr>boundary = bnd, parts = [image_part ''image/jpeg'' [] ], closed = False\<rparr>\<close>
  by (simp add: CreatePart_def NewWriter_def image_part_def)

lemma part_Write_image:
  "part_Write p \<lparr>boundary = bnd, parts = [image_part ctype [] ], closed = False\<rparr> =
     \<lparr>boundary = bnd, parts = [image_part ctype p], closed = False\<rparr>"
  by (simp add: part_Write_def image_part_def)

lemma WriteField_callbackURL:
  "WriteField ''callbackURL'' c \<lparr>boundary = bnd, parts = ps, closed = False\<rparr> =
     Inr \<lparr>boundary = bnd, parts = ps @ [field_part c], closed = False\<rparr>"
  by (simp add: WriteField_def CreateFormField_def CreatePart_def part_Write_def
      escapeQuotes_def field_part_def)

lemma Describe_steps:
  "Describe self Do bnd (Reader p fail) cbs =
    (case fail of
       Some err \<Rightarrow> ('''', Some err, [])
     | None \<Rightarrow>
        (let req = form_request self (describe_body ''application/octet-stream'' bnd p cbs);
             zero = \<lparr>DescribeResponse_TaskId = ''''\<rparr>;
             um = unmarshal DescribeResponse_fields ''DescribeResponse''
         in case Do req of
              Inl err \<Rightarrow> ('''', Some err, [req])
            | Inr res \<Rightarrow>
                (case snd (Decoder_Decode um (Body res) zero) of
                   Some err \<Rightarrow> ('''', Some err, [req])
                 | None \<Rightarrow> (DescribeResponse_TaskId (fst (Decoder_Decode um (Body res) zero)),
                            None, [req]))))"
proof (cases cbs)
  case Nil
  then show ?thesis
    by (simp add: Describe_def CreateFormFile_image part_Write_image Close_def
        NewRequest_host isCTL_def Header_Set_def form_request_def describe_body_def Let_def
        split: option.splits sum.splits prod.splits)
next
  case (Cons c cs)
  then show ?thesis
    by (simp add: Describe_def CreateFormFile_image part_Write_image WriteField_callbackURL
        Close_def NewRequest_host isCTL_def Header_Set_def form_request_def describe_body_def
        Let_def split: option.splits sum.splits prod.splits)
qed

lemma Describe2_steps:
  "Describe2 self Do bnd (Reader p fail) cbs =
    (case fail of
       Some err \<Rightarrow> ('''', Some err, [])
     | None \<Rightarrow>
        (let req = form_request self (describe_body ''image/jpeg'' bnd p cbs);
             zero = \<lparr>DescribeResponse_TaskId = ''''\<rparr>;
             um = unmarshal DescribeResponse2_fields ''DescribeResponse''
         in case Do req of
              Inl err \<Rightarrow> ('''', Some err, [req])
            | Inr res \<Rightarrow>
                (case ReadAll (Body res) of
                   Inl err \<Rightarrow> ('''', Some err, [req])
                 | Inr doc \<Rightarrow>
                     (case snd (json_Unmarshal um doc zero) of
                        Some err \<Rightarrow> ('''', Some err, [req])
                      | None \<Rightarrow> (DescribeResponse_TaskId (fst (json_Unmarshal um doc zero)),
                                 None, [req])))))"
proof (cases cbs)
  case Nil
  then show ?thesis
    by (simp add: Describe2_def CreatePart_image part_Write_image Close_def
        NewRequest_host isCTL_def Header_Set_def form_request_def describe_body_def Let_def
        split: option.splits sum.splits prod.splits)
next
  case (Cons c cs)
  then show ?thesis
    by (simp add: Describe2_def CreatePart_image part_Write_image WriteField_callbackURL
        Close_def NewRequest_host isCTL_def Header_Set_def form_request_def describe_body_def
        Let_def split: option.splits sum.splits prod.splits)
qed

section \<open>The claims\<close>

text \<open>C1, as stated, fails: \<^verbatim>\<open>Seed(taskId)\<close> with no callback URL does not
  omit \<^verbatim>\<open>callbackURL\<close>. The tag of \<^verbatim>\<open>SeedRequest.CallbackURL\<close> (line 149) has no
  \<^verbatim>\<open>omitempty\<close>, so the body carries the member with the empty string.\<close>

theorem C1_counterexample:
  "map (body_member ''callbackURL'')
     (map ReqBody (sent (Seed (NewClient ''key'') refuse ''T1'' []))) = [Some (JString '''')] \<and>
   map ReqBody (sent (Seed (NewClient ''key'') refuse ''T1'' [])) =
     [JSONBody (JObject [(''taskId'', JString ''T1''), (''callbackURL'', JString '''')])]"
  by (simp add: Seed_steps getArrayFirstOrEmpty_Nil sent_def refuse_def json_request_def
      SeedBody_def)

text \<open>C1, amended. For every operation, the serialized request body omits each
  field tagged \<^verbatim>\<open>omitempty\<close> when its input is absent: the \<^verbatim>\<open>mode\<close> (when empty)
  and the \<^verbatim>\<open>callbackURL\<close> of \<^verbatim>\<open>Imagine\<close>, the \<^verbatim>\<open>position\<close> of \<^verbatim>\<open>ImagineResult\<close>,
  \<^verbatim>\<open>DescribeResult\<close> and \<^verbatim>\<open>SeedResult\<close>, the \<^verbatim>\<open>callback_url\<close> of \<^verbatim>\<open>Upscale\<close>, and
  the \<^verbatim>\<open>callbackURL\<close> form field of both \<^verbatim>\<open>Describe\<close>. The \<^verbatim>\<open>callbackURL\<close> of
  \<^verbatim>\<open>Seed\<close> is not tagged \<^verbatim>\<open>omitempty\<close>: for every task identifier, \<^verbatim>\<open>Seed(taskId)\<close>
  with no callback URL produces the body with \<^verbatim>\<open>taskId\<close> and with \<^verbatim>\<open>callbackURL\<close>
  equal to the empty string.\<close>

theorem C1_optional_fields_absent:
  fixes pf :: "rat \<Rightarrow> ('f::zero) option"
  shows
    "map ReqBody (sent (Imagine self Do prompt mode [])) =
       [JSONBody (JObject ((''prompt'', JString prompt) #
                           (if mode = '''' then [] else [(''mode'', JString mode)])))] \<and>
     map ReqBody (sent (ImagineResult pf self Do taskId [])) =
       [JSONBody (JObject [(''taskId'', JString taskId)])] \<and>
     map ReqBody (sent (DescribeResult pf self Do taskId)) =
       [JSONBody (JObject [(''taskId'', JString taskId)])] \<and>
     map ReqBody (sent (SeedResult pf self Do taskId)) =
       [JSONBody (JObject [(''taskId'', JString taskId)])] \<and>
     map ReqBody (sent (Upscale self Do taskId position [])) =
       [JSONBody (JObject [(''taskId'', JString taskId),
                           (''position'', JNumber (of_int (sint position)))])] \<and>
     map ReqBody (sent (Faceswap self Do target face)) =
       [JSONBody (JObject [(''targetImageURL'', JString target),
                           (''faceImageURL'', JString face)])] \<and>
     map body_parts (map ReqBody (sent (Describe self Do bnd (Reader p None) []))) =
       [ [image_part ''application/octet-stream'' p] ] \<and>
     map body_parts (map ReqBody (sent (Describe2 self Do bnd (Reader p None) []))) =
       [ [image_part ''image/jpeg'' p] ] \<and>
     map ReqBody (sent (Seed self Do taskId [])) =
       [JSONBody (JObject [(''taskId'', JString taskId), (''callbackURL'', JString '''')])]"
proof -
  have imagine: "map ReqBody (sent (Imagine self Do prompt mode [])) =
       [JSONBody (JObject ((''prompt'', JString prompt) #
                           (if mode = '''' then [] else [(''mode'', JString mode)])))]"
    by (simp add: Imagine_steps getArrayFirstOrEmpty_Nil sent_def json_request_def
        ImagineBody_def Let_def split: sum.splits)
  have imagine_result: "map ReqBody (sent (ImagineResult pf self Do taskId [])) =
       [JSONBody (JObject [(''taskId'', JString taskId)])]"
    by (simp add: ImagineResult_steps getArrayFirstOrEmpty_Nil sent_def json_request_def
        ResultBody_def Let_def split: sum.splits option.splits)
  have describe_result: "map ReqBody (sent (DescribeResult pf self Do taskId)) =
       [JSONBody (JObject [(''taskId'', JString taskId)])]"
    by (simp add: DescribeResult_steps sent_def json_request_def ResultBody_def Let_def
        split: sum.splits option.splits)
  have seed_result: "map ReqBody (sent (SeedResult pf self Do taskId)) =
       [JSONBody (JObject [(''taskId'', JString taskId)])]"
    by (simp add: SeedResult_steps sent_def json_request_def ResultBody_def Let_def
        split: sum.splits option.splits)
  have upscale: "map ReqBody (sent (Upscale self Do taskId position [])) =
       [JSONBody (JObject [(''taskId'', JString taskId),
                           (''position'', JNumber (of_int (sint position)))])]"
    by (simp add: Upscale_steps getArrayFirstOrEmpty_Nil sent_def json_request_def
        UpscaleBody_def Let_def split: sum.splits)
  have faceswap: "map ReqBody (sent (Faceswap self Do target face)) =
       [JSONBody (JObject [(''targetImageURL'', JString target),
                           (''faceImageURL'', JString face)])]"
    by (simp add: Faceswap_steps sent_def json_request_def FaceswapBody_def Let_def
        split: sum.splits)
  have describe: "map body_parts (map ReqBody (sent (Describe self Do bnd (Reader p None) []))) =
       [ [image_part ''application/octet-stream'' p] ]"
    by (simp add: Describe_steps sent_def form_request_def describe_body_def Let_def
        split: sum.splits option.splits)
  have describe2: "map body_parts (map ReqBody (sent (Describe2 self Do bnd (Reader p None) []))) =
       [ [image_part ''image/jpeg'' p] ]"
    by (simp add: Describe2_steps sent_def form_request_def describe_body_def Let_def
        split: sum.splits option.splits)
  have seed: "map ReqBody (sent (Seed self Do taskId [])) =
       [JSONBody (JObject [(''taskId'', JString taskId), (''callbackURL'', JString '''')])]"
    by (simp add: Seed_steps getArrayFirstOrEmpty_Nil sent_def json_request_def SeedBody_def
        Let_def split: sum.splits)
  from imagine imagine_result describe_result seed_result upscale faceswap describe describe2 seed
  show ?thesis by blast
qed

theorem C1_optional_fields_absent_witness:
  "map ReqBody (sent (Imagine (NewClient ''key'') refuse ''a red fox'' '''' [])) =
     [JSONBody (JObject [(''prompt'', JString ''a red fox'')])] \<and>
   map ReqBody (sent (Upscale (NewClient ''key'') refuse ''T1'' 2 [])) =
     [JSONBody (JObject [(''taskId'', JString ''T1''), (''position'', JNumber 2)])] \<and>
   map ReqBody (sent (Seed (NewClient ''key'') refuse ''T1'' [])) =
     [JSONBody (JObject [(''taskId'', JString ''T1''), (''callbackURL'', JString '''')])]"
  using C1_optional_fields_absent [of "NewClient ''key''" refuse "''a red fox''" "''''"
      "\<lambda>q. Some q" "''T1''" 2 "''x''" "''y''" "''b''" "''abc''"]
  by simp

text \<open>The two foldings of field names that the runs below meet.\<close>

lemma fold_TaskId: "foldName ''TaskId'' = foldName ''taskId''"
  by code_simp

lemma fold_task_id: "foldName ''task_id'' \<noteq> foldName ''taskId''"
  by code_simp

text \<open>C2. For every image byte stream of length \<open>N\<close>, the multipart request body
  built by \<^verbatim>\<open>Describe\<close> (lines 342--394) contains exactly one part with the form
  name \<^verbatim>\<open>image\<close>, the file name \<^verbatim>\<open>image.jpg\<close>, the content type \<^verbatim>\<open>image/jpeg\<close>
  and a body of length \<open>N\<close>, the bytes of the image; when a callback URL is
  supplied, the body holds one more part, the form field \<^verbatim>\<open>callbackURL\<close> whose
  value is exactly that string; it holds no other part.\<close>

theorem C2_Describe_multipart_body:
  \<open>map body_parts (map ReqBody (sent (Describe2 self Do bnd (Reader p None) cbs))) =
     [ [\<lparr>PartHeader = [''Content-Disposition'' \<mapsto>
                          ''form-data; name="image"; filename="image.jpg"'',
                        ''Content-Type'' \<mapsto> ''image/jpeg''],
          PartData = p\<rparr>] @
       (case cbs of
          [] \<Rightarrow> []
        | c # cs \<Rightarrow> [\<lparr>PartHeader = [''Content-Disposition'' \<mapsto>
                                       ''form-data; name="callbackURL"''],
                       PartData = c\<rparr>]) ] \<and>
   map (\<lambda>ps. map (\<lambda>pt. PartHeader pt ''Content-Type'') (take 1 ps))
     (map body_parts (map ReqBody (sent (Describe2 self Do bnd (Reader p None) cbs)))) =
     [ [Some ''image/jpeg''] ] \<and>
   map (\<lambda>ps. map (\<lambda>pt. length (PartData pt)) (take 1 ps))
     (map body_parts (map ReqBody (sent (Describe2 self Do bnd (Reader p None) cbs)))) =
     [ [length p] ] \<and>
   map (\<lambda>ps. map PartData (drop 1 ps))
     (map body_parts (map ReqBody (sent (Describe2 self Do bnd (Reader p None) (c # cs))))) =
     [ [c] ] \<and>
   map (\<lambda>ps. length ps)
     (map body_parts (map ReqBody (sent (Describe2 self Do bnd (Reader p None) [])))) =
     [1]\<close>
proof -
  have body: "map ReqBody (sent (Describe2 self Do bnd (Reader p None) xs)) =
      [MultipartBody (describe_body ''image/jpeg'' bnd p xs)]" for xs
    by (simp add: Describe2_steps sent_def form_request_def Let_def
        split: sum.splits option.splits)
  show ?thesis
    unfolding body
    by (cases cbs) (simp_all add: describe_body_def image_part_def field_part_def)
qed

theorem C2_Describe_multipart_body_witness:
  \<open>map body_parts (map ReqBody
     (sent (Describe2 (NewClient ''key'') refuse ''b'' (Reader ''abc'' None) [''https://cb'']))) =
     [ [\<lparr>PartHeader = [''Content-Disposition'' \<mapsto>
                          ''form-data; name="image"; filename="image.jpg"'',
                        ''Content-Type'' \<mapsto> ''image/jpeg''],
          PartData = ''abc''\<rparr>,
        \<lparr>PartHeader = [''Content-Disposition'' \<mapsto> ''form-data; name="callbackURL"''],
          PartData = ''https://cb''\<rparr>] ] \<and>
   map (\<lambda>ps. map (\<lambda>pt. length (PartData pt)) (take 1 ps))
     (map body_parts (map ReqBody
        (sent (Describe2 (NewClient ''key'') refuse ''b'' (Reader ''abc'' None)
           [''https://cb''])))) = [ [3] ]\<close>
  using C2_Describe_multipart_body [of "NewClient ''key''" refuse "''b''" "''abc''"
      "[''https://cb'']" "''https://cb''" "[]"]
  by simp

text \<open>The first text of \<^verbatim>\<open>Describe\<close> (lines 89--129) builds the same body but for
  the content type of the image part: \<^verbatim>\<open>CreateFormFile\<close> gives it
  \<^verbatim>\<open>application/octet-stream\<close>.\<close>

lemma Describe_multipart_body:
  "map ReqBody (sent (Describe self Do bnd (Reader p None) cbs)) =
     [MultipartBody (describe_body ''application/octet-stream'' bnd p cbs)] \<and>
   PartHeader (image_part ''application/octet-stream'' p) ''Content-Type'' =
     Some ''application/octet-stream''"
  by (simp add: Describe_steps sent_def form_request_def describe_body_def image_part_def
      Let_def split: sum.splits option.splits)

lemma Describe_first_content_type:
  "map (\<lambda>ps. map (\<lambda>pt. PartHeader pt ''Content-Type'') ps)
     (map body_parts (map ReqBody
        (sent (Describe (NewClient ''key'') refuse ''b'' (Reader ''abc'' None) [])))) =
     [ [Some ''application/octet-stream''] ]"
  by (simp add: Describe_steps sent_def refuse_def form_request_def describe_body_def
      image_part_def)

text \<open>C3. \<^verbatim>\<open>Describe\<close> (lines 342--394) decodes its JSON response into
  \<^verbatim>\<open>DescribeResponse\<close> (lines 332--334), an object with the field \<^verbatim>\<open>taskId\<close>, and
  returns the value of that field as the task identifier: for every string
  \<open>s\<close>, whatever the status code, on the response body \<^verbatim>\<open>{"taskId": s}\<close> it
  returns \<open>s\<close> and a \<^verbatim>\<open>nil\<close> error.\<close>

theorem C3_Describe_returns_taskId:
  assumes "map Do (sent (Describe2 self Do bnd img cbs)) =
    [Inr \<lparr>StatusCode = sc,
          Body = ResBody (Value (JObject [(''taskId'', JString s)]) Clean) None\<rparr>]"
  shows "result_of (Describe2 self Do bnd img cbs) = s \<and>
         error_of (Describe2 self Do bnd img cbs) = None \<and>
         json_Unmarshal (unmarshal DescribeResponse2_fields ''DescribeResponse'')
           (Value (JObject [(''taskId'', JString s)]) Clean)
           \<lparr>DescribeResponse_TaskId = ''''\<rparr> = (\<lparr>DescribeResponse_TaskId = s\<rparr>, None)"
  using assms
  by (cases img)
     (auto simp: Describe2_steps sent_def result_of_def error_of_def Let_def unmarshal_def
        DescribeResponse2_fields_def find_field_def store_string_def
        split: sum.splits option.splits)

theorem C3_Describe_returns_taskId_witness:
  "map (reply 200 (JObject [(''taskId'', JString ''T1'')]))
     (sent (Describe2 (NewClient ''key'') (reply 200 (JObject [(''taskId'', JString ''T1'')]))
        ''b'' (Reader ''abc'' None) [])) =
     [Inr \<lparr>StatusCode = 200,
           Body = ResBody (Value (JObject [(''taskId'', JString ''T1'')]) Clean) None\<rparr>] \<and>
   result_of (Describe2 (NewClient ''key'') (reply 200 (JObject [(''taskId'', JString ''T1'')]))
     ''b'' (Reader ''abc'' None) []) = ''T1'' \<and>
   error_of (Describe2 (NewClient ''key'') (reply 200 (JObject [(''taskId'', JString ''T1'')]))
     ''b'' (Reader ''abc'' None) []) = None"
proof -
  have sending: "map (reply 200 (JObject [(''taskId'', JString ''T1'')]))
     (sent (Describe2 (NewClient ''key'') (reply 200 (JObject [(''taskId'', JString ''T1'')]))
        ''b'' (Reader ''abc'' None) [])) =
     [Inr \<lparr>StatusCode = 200,
           Body = ResBody (Value (JObject [(''taskId'', JString ''T1'')]) Clean) None\<rparr>]"
    by (simp add: Describe2_steps sent_def reply_def Let_def unmarshal_def
        DescribeResponse2_fields_def find_field_def store_string_def)
  from sending C3_Describe_returns_taskId [OF sending] show ?thesis by simp
qed

text \<open>The first text of \<^verbatim>\<open>Describe\<close> decodes into the \<^verbatim>\<open>DescribeResponse\<close> of lines
  85--87, tagged \<^verbatim>\<open>task_id\<close>: it returns the member \<^verbatim>\<open>task_id\<close> of the response,
  and on the body \<^verbatim>\<open>{"taskId": "T1"}\<close> the empty string with no error.\<close>

lemma Describe_returns_task_id:
  assumes "map Do (sent (Describe self Do bnd img cbs)) =
    [Inr \<lparr>StatusCode = sc,
          Body = ResBody (Value (JObject [(''task_id'', JString s)]) t) ending\<rparr>]"
  shows "result_of (Describe self Do bnd img cbs) = s \<and>
         error_of (Describe self Do bnd img cbs) = None"
  using assms
  by (cases img)
     (auto simp: Describe_steps sent_def result_of_def error_of_def Let_def unmarshal_def
        DescribeResponse_fields_def find_field_def store_string_def
        split: sum.splits option.splits)

lemma Describe_first_skips_taskId:
  "result_of (Describe (NewClient ''key'') (reply 200 (JObject [(''taskId'', JString ''T1'')]))
     ''b'' (Reader ''abc'' None) []) = '''' \<and>
   error_of (Describe (NewClient ''key'') (reply 200 (JObject [(''taskId'', JString ''T1'')]))
     ''b'' (Reader ''abc'' None) []) = None"
  by (simp add: Describe_steps result_of_def error_of_def reply_def Let_def
      unmarshal_def DescribeResponse_fields_def find_field_def
      store_string_def fold_task_id)

text \<open>C4 holds for the operations that return \<^verbatim>\<open>nil\<close> or the empty string on the
  error path (lines 78--80, 124--126, 140--142, 175--177, 389--391): whenever
  they return an error, a decode error included, the other result is the zero
  value.\<close>

lemma error_means_zero_result:
  fixes pf :: "rat \<Rightarrow> ('f::zero) option"
  shows
    "(error_of (ImagineResult pf self Do taskId ps) \<noteq> None \<longrightarrow>
        result_of (ImagineResult pf self Do taskId ps) = None) \<and>
     (error_of (DescribeResult pf self Do taskId) \<noteq> None \<longrightarrow>
        result_of (DescribeResult pf self Do taskId) = None) \<and>
     (error_of (SeedResult pf self Do taskId) \<noteq> None \<longrightarrow>
        result_of (SeedResult pf self Do taskId) = None) \<and>
     (error_of (Describe self Do bnd img cbs) \<noteq> None \<longrightarrow>
        result_of (Describe self Do bnd img cbs) = '''') \<and>
     (error_of (Describe2 self Do bnd img cbs) \<noteq> None \<longrightarrow>
        result_of (Describe2 self Do bnd img cbs) = '''')"
proof -
  have results:
    "error_of (ImagineResult pf self Do taskId ps) \<noteq> None \<longrightarrow>
       result_of (ImagineResult pf self Do taskId ps) = None"
    "error_of (DescribeResult pf self Do taskId) \<noteq> None \<longrightarrow>
       result_of (DescribeResult pf self Do taskId) = None"
    "error_of (SeedResult pf self Do taskId) \<noteq> None \<longrightarrow>
       result_of (SeedResult pf self Do taskId) = None"
    by (auto simp: ImagineResult_steps DescribeResult_steps SeedResult_steps result_of_def
        error_of_def Let_def split: sum.splits option.splits)
  have describe: "error_of (Describe self Do bnd img cbs) \<noteq> None \<longrightarrow>
       result_of (Describe self Do bnd img cbs) = ''''"
    by (cases img)
       (auto simp: Describe_steps result_of_def error_of_def Let_def
          split: sum.splits option.splits)
  have describe2: "error_of (Describe2 self Do bnd img cbs) \<noteq> None \<longrightarrow>
       result_of (Describe2 self Do bnd img cbs) = ''''"
    by (cases img)
       (auto simp: Describe2_steps result_of_def error_of_def Let_def
          split: sum.splits option.splits)
  from results describe describe2 show ?thesis by blast
qed

text \<open>C4 fails for \<^verbatim>\<open>Imagine\<close>, \<^verbatim>\<open>Seed\<close>, \<^verbatim>\<open>Upscale\<close> and \<^verbatim>\<open>Faceswap\<close>, which
  return the field of the response struct together with the error (lines 65,
  163, 200, 219). A member that does not fit its field makes the decoder
  report a type error, but the members that fit are stored. Here on the
  response body \<^verbatim>\<open>{"taskId": "T1", "taskId": 5}\<close> (for \<^verbatim>\<open>Upscale\<close> and
  \<^verbatim>\<open>Faceswap\<close>, \<^verbatim>\<open>{"imageURL": "u", "imageURL": 5}\<close>): the operation returns the
  decode error and, with it, the decoded string instead of the empty one.\<close>

theorem C4_partial_result_with_decode_error:
  "result_of (Imagine (NewClient ''key'')
     (reply 200 (JObject [(''taskId'', JString ''T1''), (''taskId'', JNumber 5)]))
     ''a red fox'' ''fast'' []) = ''T1'' \<and>
   error_of (Imagine (NewClient ''key'')
     (reply 200 (JObject [(''taskId'', JString ''T1''), (''taskId'', JNumber 5)]))
     ''a red fox'' ''fast'' []) = Some (UnmarshalTypeError ''number'' ''string'') \<and>
   result_of (Seed (NewClient ''key'')
     (reply 200 (JObject [(''taskId'', JString ''T1''), (''taskId'', JNumber 5)]))
     ''T0'' []) = ''T1'' \<and>
   error_of (Seed (NewClient ''key'')
     (reply 200 (JObject [(''taskId'', JString ''T1''), (''taskId'', JNumber 5)]))
     ''T0'' []) = Some (UnmarshalTypeError ''number'' ''string'') \<and>
   result_of (Upscale (NewClient ''key'')
     (reply 200 (JObject [(''imageURL'', JString ''u''), (''imageURL'', JNumber 5)]))
     ''T1'' 2 []) = ''u'' \<and>
   error_of (Upscale (NewClient ''key'')
     (reply 200 (JObject [(''imageURL'', JString ''u''), (''imageURL'', JNumber 5)]))
     ''T1'' 2 []) = Some (UnmarshalTypeError ''number'' ''string'') \<and>
   result_of (Faceswap (NewClient ''key'')
     (reply 200 (JObject [(''imageURL'', JString ''u''), (''imageURL'', JNumber 5)]))
     ''x'' ''y'') = ''u'' \<and>
   error_of (Faceswap (NewClient ''key'')
     (reply 200 (JObject [(''imageURL'', JString ''u''), (''imageURL'', JNumber 5)]))
     ''x'' ''y'') = Some (UnmarshalTypeError ''number'' ''string'')"
  by (simp add: Imagine_steps Seed_steps Upscale_steps Faceswap_steps result_of_def error_of_def
      reply_def Let_def unmarshal_def ImagineResponse_fields_def SeedResponse_fields_def
      UpscaleResponse_fields_def FaceswapResponse_fields_def find_field_def store_string_def
      fold_TaskId fold_task_id)

text \<open>The outcome of an operation does not depend on the status codes of the
  transport's responses.\<close>

lemma status_code_never_read:
  fixes pf :: "rat \<Rightarrow> ('f::zero) option"
  shows
    "Imagine self (with_status sc Do) prompt mode cbs = Imagine self Do prompt mode cbs \<and>
     ImagineResult pf self (with_status sc Do) taskId ps = ImagineResult pf self Do taskId ps \<and>
     Describe self (with_status sc Do) bnd img cbs = Describe self Do bnd img cbs \<and>
     Describe2 self (with_status sc Do) bnd img cbs = Describe2 self Do bnd img cbs \<and>
     DescribeResult pf self (with_status sc Do) taskId = DescribeResult pf self Do taskId \<and>
     Seed self (with_status sc Do) taskId cbs = Seed self Do taskId cbs \<and>
     SeedResult pf self (with_status sc Do) taskId = SeedResult pf self Do taskId \<and>
     Upscale self (with_status sc Do) taskId position cbs = Upscale self Do taskId position cbs \<and>
     Faceswap self (with_status sc Do) target face = Faceswap self Do target face"
proof -
  have json:
    "Imagine self (with_status sc Do) prompt mode cbs = Imagine self Do prompt mode cbs"
    "ImagineResult pf self (with_status sc Do) taskId ps = ImagineResult pf self Do taskId ps"
    "DescribeResult pf self (with_status sc Do) taskId = DescribeResult pf self Do taskId"
    "Seed self (with_status sc Do) taskId cbs = Seed self Do taskId cbs"
    "SeedResult pf self (with_status sc Do) taskId = SeedResult pf self Do taskId"
    "Upscale self (with_status sc Do) taskId position cbs = Upscale self Do taskId position cbs"
    "Faceswap self (with_status sc Do) target face = Faceswap self Do target face"
    by (simp_all add: Imagine_steps ImagineResult_steps DescribeResult_steps Seed_steps
        SeedResult_steps Upscale_steps Faceswap_steps with_status_def Let_def
        split: sum.splits option.splits)
  have describe: "Describe self (with_status sc Do) bnd img cbs = Describe self Do bnd img cbs"
    by (cases img)
       (simp add: Describe_steps with_status_def Let_def split: sum.splits option.splits)
  have describe2: "Describe2 self (with_status sc Do) bnd img cbs = Describe2 self Do bnd img cbs"
    by (cases img)
       (simp add: Describe2_steps with_status_def Let_def split: sum.splits option.splits)
  from json describe describe2 show ?thesis by blast
qed

text \<open>C5. No operation looks at the status code of the response: whatever the
  status, 2xx or not, when the body decodes into the struct of the operation
  without error, the operation returns the decoded result (the task
  identifier, the image URL or the pointer to the result struct) and a \<^verbatim>\<open>nil\<close>
  error.\<close>

theorem C5_status_code_ignored:
  fixes pf :: "rat \<Rightarrow> ('f::zero) option"
  shows
    "(map Do (sent (Imagine self Do prompt mode cbs)) = [Inr \<lparr>StatusCode = sc, Body = b\<rparr>] \<and>
      Decoder_Decode (unmarshal ImagineResponse_fields ''ImagineResponse'') b
        \<lparr>ImagineResponse_TaskId = ''''\<rparr> = (r1, None) \<longrightarrow>
        result_of (Imagine self Do prompt mode cbs) = ImagineResponse_TaskId r1 \<and>
        error_of (Imagine self Do prompt mode cbs) = None) \<and>
     (map Do (sent (ImagineResult pf self Do taskId ps)) = [Inr \<lparr>StatusCode = sc, Body = b\<rparr>] \<and>
      Decoder_Decode (unmarshal (ImagineResultResponse_fields pf) ''ImagineResultResponse'') b
        \<lparr>Status = '''', Percentage = 0, ImageURL = ''''\<rparr> = (r2, None) \<longrightarrow>
        result_of (ImagineResult pf self Do taskId ps) = Some r2 \<and>
        error_of (ImagineResult pf self Do taskId ps) = None) \<and>
     (map Do (sent (Describe self Do bnd img cbs)) = [Inr \<lparr>StatusCode = sc, Body = b\<rparr>] \<and>
      Decoder_Decode (unmarshal DescribeResponse_fields ''DescribeResponse'') b
        \<lparr>DescribeResponse_TaskId = ''''\<rparr> = (r3, None) \<longrightarrow>
        result_of (Describe self Do bnd img cbs) = DescribeResponse_TaskId r3 \<and>
        error_of (Describe self Do bnd img cbs) = None) \<and>
     (map Do (sent (Describe2 self Do bnd img cbs)) = [Inr \<lparr>StatusCode = sc, Body = b\<rparr>] \<and>
      ReadAll b = Inr doc \<and>
      json_Unmarshal (unmarshal DescribeResponse2_fields ''DescribeResponse'') doc
        \<lparr>DescribeResponse_TaskId = ''''\<rparr> = (r4, None) \<longrightarrow>
        result_of (Describe2 self Do bnd img cbs) = DescribeResponse_TaskId r4 \<and>
        error_of (Describe2 self Do bnd img cbs) = None) \<and>
     (map Do (sent (DescribeResult pf self Do taskId)) = [Inr \<lparr>StatusCode = sc, Body = b\<rparr>] \<and>
      Decoder_Decode (unmarshal (DescribeResultResponse_fields pf) ''DescribeResultResponse'') b
        \<lparr>Status = '''', Percentage = 0, Content = None\<rparr> = (r5, None) \<longrightarrow>
        result_of (DescribeResult pf self Do taskId) = Some r5 \<and>
        error_of (DescribeResult pf self Do taskId) = None) \<and>
     (map Do (sent (Seed self Do taskId cbs)) = [Inr \<lparr>StatusCode = sc, Body = b\<rparr>] \<and>
      Decoder_Decode (unmarshal SeedResponse_fields ''SeedResponse'') b
        \<lparr>SeedResponse_TaskId = ''''\<rparr> = (r6, None) \<longrightarrow>
        result_of (Seed self Do taskId cbs) = SeedResponse_TaskId r6 \<and>
        error_of (Seed self Do taskId cbs) = None) \<and>
     (map Do (sent (SeedResult pf self Do taskId)) = [Inr \<lparr>StatusCode = sc, Body = b\<rparr>] \<and>
      Decoder_Decode (unmarshal (SeedResultResponse_fields pf) ''SeedResultResponse'') b
        \<lparr>Status = '''', Percentage = 0, SeedResultResponse_Seed = ''''\<rparr> = (r7, None) \<longrightarrow>
        result_of (SeedResult pf self Do taskId) = Some r7 \<and>
        error_of (SeedResult pf self Do taskId) = None) \<and>
     (map Do (sent (Upscale self Do taskId position cbs)) =
        [Inr \<lparr>StatusCode = sc, Body = b\<rparr>] \<and>
      Decoder_Decode (unmarshal UpscaleResponse_fields ''UpscaleResponse'') b
        \<lparr>UpscaleResponse_ImageURL = ''''\<rparr> = (r8, None) \<longrightarrow>
        result_of (Upscale self Do taskId position cbs) = UpscaleResponse_ImageURL r8 \<and>
        error_of (Upscale self Do taskId position cbs) = None) \<and>
     (map Do (sent (Faceswap self Do target face)) = [Inr \<lparr>StatusCode = sc, Body = b\<rparr>] \<and>
      Decoder_Decode (unmarshal FaceswapResponse_fields ''FaceswapResponse'') b
        \<lparr>FaceswapResponse_ImageURL = ''''\<rparr> = (r9, None) \<longrightarrow>
        result_of (Faceswap self Do target face) = FaceswapResponse_ImageURL r9 \<and>
        error_of (Faceswap self Do target face) = None)"
proof -
  have imagine:
    "map Do (sent (Imagine self Do prompt mode cbs)) = [Inr \<lparr>StatusCode = sc, Body = b\<rparr>] \<and>
      Decoder_Decode (unmarshal ImagineResponse_fields ''ImagineResponse'') b
        \<lparr>ImagineResponse_TaskId = ''''\<rparr> = (r1, None) \<longrightarrow>
        result_of (Imagine self Do prompt mode cbs) = ImagineResponse_TaskId r1 \<and>
        error_of (Imagine self Do prompt mode cbs) = None"
    by (auto simp: Imagine_steps sent_def result_of_def error_of_def Let_def split: sum.splits)
  have imagine_result:
    "map Do (sent (ImagineResult pf self Do taskId ps)) = [Inr \<lparr>StatusCode = sc, Body = b\<rparr>] \<and>
      Decoder_Decode (unmarshal (ImagineResultResponse_fields pf) ''ImagineResultResponse'') b
        \<lparr>Status = '''', Percentage = 0, ImageURL = ''''\<rparr> = (r2, None) \<longrightarrow>
        result_of (ImagineResult pf self Do taskId ps) = Some r2 \<and>
        error_of (ImagineResult pf self Do taskId ps) = None"
    by (auto simp: ImagineResult_steps sent_def result_of_def error_of_def Let_def
        split: sum.splits option.splits)
  have describe:
    "map Do (sent (Describe self Do bnd img cbs)) = [Inr \<lparr>StatusCode = sc, Body = b\<rparr>] \<and>
      Decoder_Decode (unmarshal DescribeResponse_fields ''DescribeResponse'') b
        \<lparr>DescribeResponse_TaskId = ''''\<rparr> = (r3, None) \<longrightarrow>
        result_of (Describe self Do bnd img cbs) = DescribeResponse_TaskId r3 \<and>
        error_of (Describe self Do bnd img cbs) = None"
    by (cases img) (auto simp: Describe_steps sent_def result_of_def error_of_def Let_def
        split: sum.splits option.splits)
  have describe2:
    "map Do (sent (Describe2 self Do bnd img cbs)) = [Inr \<lparr>StatusCode = sc, Body = b\<rparr>] \<and>
      ReadAll b = Inr doc \<and>
      json_Unmarshal (unmarshal DescribeResponse2_fields ''DescribeResponse'') doc
        \<lparr>DescribeResponse_TaskId = ''''\<rparr> = (r4, None) \<longrightarrow>
        result_of (Describe2 self Do bnd img cbs) = DescribeResponse_TaskId r4 \<and>
        error_of (Describe2 self Do bnd img cbs) = None"
    by (cases img) (auto simp: Describe2_steps sent_def result_of_def error_of_def Let_def
        split: sum.splits option.splits)
  have describe_result:
    "map Do (sent (DescribeResult pf self Do taskId)) = [Inr \<lparr>StatusCode = sc, Body = b\<rparr>] \<and>
      Decoder_Decode (unmarshal (DescribeResultResponse_fields pf) ''DescribeResultResponse'') b
        \<lparr>Status = '''', Percentage = 0, Content = None\<rparr> = (r5, None) \<longrightarrow>
        result_of (DescribeResult pf self Do taskId) = Some r5 \<and>
        error_of (DescribeResult pf self Do taskId) = None"
    by (auto simp: DescribeResult_steps sent_def result_of_def error_of_def Let_def
        split: sum.splits option.splits)
  have seed:
    "map Do (sent (Seed self Do taskId cbs)) = [Inr \<lparr>StatusCode = sc, Body = b\<rparr>] \<and>
      Decoder_Decode (unmarshal SeedResponse_fields ''SeedResponse'') b
        \<lparr>SeedResponse_TaskId = ''''\<rparr> = (r6, None) \<longrightarrow>
        result_of (Seed self Do taskId cbs) = SeedResponse_TaskId r6 \<and>
        error_of (Seed self Do taskId cbs) = None"
    by (auto simp: Seed_steps sent_def result_of_def error_of_def Let_def split: sum.splits)
  have seed_result:
    "map Do (sent (SeedResult pf self Do taskId)) = [Inr \<lparr>StatusCode = sc, Body = b\<rparr>] \<and>
      Decoder_Decode (unmarshal (SeedResultResponse_fields pf) ''SeedResultResponse'') b
        \<lparr>Status = '''', Percentage = 0, SeedResultResponse_Seed = ''''\<rparr> = (r7, None) \<longrightarrow>
        result_of (SeedResult pf self Do taskId) = Some r7 \<and>
        error_of (SeedResult pf self Do taskId) = None"
    by (auto simp: SeedResult_steps sent_def result_of_def error_of_def Let_def
        split: sum.splits option.splits)
  have upscale:
    "map Do (sent (Upscale self Do taskId position cbs)) =
        [Inr \<lparr>StatusCode = sc, Body = b\<rparr>] \<and>
      Decoder_Decode (unmarshal UpscaleResponse_fields ''UpscaleResponse'') b
        \<lparr>UpscaleResponse_ImageURL = ''''\<rparr> = (r8, None) \<longrightarrow>
        result_of (Upscale self Do taskId position cbs) = UpscaleResponse_ImageURL r8 \<and>
        error_of (Upscale self Do taskId position cbs) = None"
    by (auto simp: Upscale_steps sent_def result_of_def error_of_def Let_def split: sum.splits)
  have faceswap:
    "map Do (sent (Faceswap self Do target face)) = [Inr \<lparr>StatusCode = sc, Body = b\<rparr>] \<and>
      Decoder_Decode (unmarshal FaceswapResponse_fields ''FaceswapResponse'') b
        \<lparr>FaceswapResponse_ImageURL = ''''\<rparr> = (r9, None) \<longrightarrow>
        result_of (Faceswap self Do target face) = FaceswapResponse_ImageURL r9 \<and>
        error_of (Faceswap self Do target face) = None"
    by (auto simp: Faceswap_steps sent_def result_of_def error_of_def Let_def split: sum.splits)
  from imagine imagine_result describe describe2 describe_result seed seed_result upscale faceswap
  show ?thesis by blast
qed

theorem C5_status_code_ignored_witness:
  "map (reply 500 (JObject [(''taskId'', JString ''T1'')]))
     (sent (Imagine (NewClient ''key'') (reply 500 (JObject [(''taskId'', JString ''T1'')]))
        ''a red fox'' ''fast'' [])) =
     [Inr \<lparr>StatusCode = 500,
           Body = ResBody (Value (JObject [(''taskId'', JString ''T1'')]) Clean) None\<rparr>] \<and>
   Decoder_Decode (unmarshal ImagineResponse_fields ''ImagineResponse'')
     (ResBody (Value (JObject [(''taskId'', JString ''T1'')]) Clean) None)
     \<lparr>ImagineResponse_TaskId = ''''\<rparr> = (\<lparr>ImagineResponse_TaskId = ''T1''\<rparr>, None) \<and>
   result_of (Imagine (NewClient ''key'') (reply 500 (JObject [(''taskId'', JString ''T1'')]))
     ''a red fox'' ''fast'' []) = ''T1'' \<and>
   error_of (Imagine (NewClient ''key'') (reply 500 (JObject [(''taskId'', JString ''T1'')]))
     ''a red fox'' ''fast'' []) = None \<and>
   result_of (ImagineResult (\<lambda>q. Some q) (NewClient ''key'')
     (reply 404 (JObject [(''status'', JString ''running''), (''percentage'', JNumber 40)]))
     ''T1'' [2]) = Some \<lparr>Status = ''running'', Percentage = 40, ImageURL = ''''\<rparr> \<and>
   error_of (ImagineResult (\<lambda>q. Some q) (NewClient ''key'')
     (reply 404 (JObject [(''status'', JString ''running''), (''percentage'', JNumber 40)]))
     ''T1'' [2]) = None"
proof -
  let ?j1 = "JObject [(''taskId'', JString ''T1'')]"
  let ?j2 = "JObject [(''status'', JString ''running''), (''percentage'', JNumber 40)]"
  have sending1: "map (reply 500 ?j1)
      (sent (Imagine (NewClient ''key'') (reply 500 ?j1) ''a red fox'' ''fast'' [])) =
      [Inr \<lparr>StatusCode = 500, Body = ResBody (Value ?j1 Clean) None\<rparr>]"
    by (simp add: Imagine_steps sent_def reply_def Let_def)
  have decoding1: "Decoder_Decode (unmarshal ImagineResponse_fields ''ImagineResponse'')
      (ResBody (Value ?j1 Clean) None) \<lparr>ImagineResponse_TaskId = ''''\<rparr> =
      (\<lparr>ImagineResponse_TaskId = ''T1''\<rparr>, None)"
    by (simp add: unmarshal_def ImagineResponse_fields_def find_field_def store_string_def)
  have sending2: "map (reply 404 ?j2)
      (sent (ImagineResult (\<lambda>q. Some q) (NewClient ''key'') (reply 404 ?j2) ''T1'' [2])) =
      [Inr \<lparr>StatusCode = 404, Body = ResBody (Value ?j2 Clean) None\<rparr>]"
    by (simp add: ImagineResult_steps sent_def reply_def Let_def split: option.splits)
  have decoding2: "Decoder_Decode
      (unmarshal (ImagineResultResponse_fields (\<lambda>q. Some q)) ''ImagineResultResponse'')
      (ResBody (Value ?j2 Clean) None) \<lparr>Status = '''', Percentage = 0, ImageURL = ''''\<rparr> =
      (\<lparr>Status = ''running'', Percentage = 40, ImageURL = ''''\<rparr>, None)"
    by (simp add: unmarshal_def ImagineResultResponse_fields_def ResultResponse_fields_def
        find_field_def store_string_def store_float64_def)
  have run1:
    "result_of (Imagine (NewClient ''key'') (reply 500 ?j1) ''a red fox'' ''fast'' []) = ''T1'' \<and>
     error_of (Imagine (NewClient ''key'') (reply 500 ?j1) ''a red fox'' ''fast'' []) = None"
    using sending1 decoding1
      C5_status_code_ignored [where Do = "reply 500 ?j1" and self = "NewClient ''key''"
        and prompt = "''a red fox''" and mode = "''fast''" and cbs = "[]" and sc = 500
        and b = "ResBody (Value ?j1 Clean) None"
        and ?r1.0 = "\<lparr>ImagineResponse_TaskId = ''T1''\<rparr>", THEN conjunct1]
    by simp
  have run2:
    "result_of (ImagineResult (\<lambda>q. Some q) (NewClient ''key'') (reply 404 ?j2) ''T1'' [2]) =
       Some \<lparr>Status = ''running'', Percentage = 40, ImageURL = ''''\<rparr> \<and>
     error_of (ImagineResult (\<lambda>q. Some q) (NewClient ''key'') (reply 404 ?j2) ''T1'' [2]) = None"
    using sending2 decoding2
      C5_status_code_ignored [where Do = "reply 404 ?j2" and self = "NewClient ''key''"
        and pf = "\<lambda>q. Some q" and taskId = "''T1''" and ps = "[2]" and sc = 404
        and b = "ResBody (Value ?j2 Clean) None"
        and ?r2.0 = "\<lparr>Status = ''running'', Percentage = 40, ImageURL = ''''\<rparr>",
        THEN conjunct2, THEN conjunct1]
    by simp
  from sending1 decoding1 run1 run2 show ?thesis by simp
qed

text \<open>C6. Every request an operation constructs carries the header
  \<^verbatim>\<open>Authorization\<close> whose value is the credential string passed to \<open>NewClient\<close>,
  as it is. Each JSON operation constructs one request; either \<^verbatim>\<open>Describe\<close>
  constructs one when the image stream is read to its end, and none otherwise.\<close>

theorem C6_authorization_is_the_credential:
  fixes pf :: "rat \<Rightarrow> ('f::zero) option"
  shows
    "map (\<lambda>r. Header r ''Authorization'') (sent (Imagine (NewClient k) Do prompt mode cbs)) =
       [Some k] \<and>
     map (\<lambda>r. Header r ''Authorization'') (sent (ImagineResult pf (NewClient k) Do taskId ps)) =
       [Some k] \<and>
     map (\<lambda>r. Header r ''Authorization'') (sent (DescribeResult pf (NewClient k) Do taskId)) =
       [Some k] \<and>
     map (\<lambda>r. Header r ''Authorization'') (sent (Seed (NewClient k) Do taskId cbs)) =
       [Some k] \<and>
     map (\<lambda>r. Header r ''Authorization'') (sent (SeedResult pf (NewClient k) Do taskId)) =
       [Some k] \<and>
     map (\<lambda>r. Header r ''Authorization'') (sent (Upscale (NewClient k) Do taskId position cbs)) =
       [Some k] \<and>
     map (\<lambda>r. Header r ''Authorization'') (sent (Faceswap (NewClient k) Do target face)) =
       [Some k] \<and>
     map (\<lambda>r. Header r ''Authorization'')
       (sent (Describe (NewClient k) Do bnd (Reader p None) cbs)) = [Some k] \<and>
     map (\<lambda>r. Header r ''Authorization'')
       (sent (Describe2 (NewClient k) Do bnd (Reader p None) cbs)) = [Some k] \<and>
     list_all (\<lambda>r. Header r ''Authorization'' = Some k)
       (sent (Describe (NewClient k) Do bnd img cbs)) \<and>
     list_all (\<lambda>r. Header r ''Authorization'' = Some k)
       (sent (Describe2 (NewClient k) Do bnd img cbs))"
proof -
  have json:
    "map (\<lambda>r. Header r ''Authorization'') (sent (Imagine (NewClient k) Do prompt mode cbs)) =
       [Some k]"
    "map (\<lambda>r. Header r ''Authorization'') (sent (ImagineResult pf (NewClient k) Do taskId ps)) =
       [Some k]"
    "map (\<lambda>r. Header r ''Authorization'') (sent (DescribeResult pf (NewClient k) Do taskId)) =
       [Some k]"
    "map (\<lambda>r. Header r ''Authorization'') (sent (Seed (NewClient k) Do taskId cbs)) =
       [Some k]"
    "map (\<lambda>r. Header r ''Authorization'') (sent (SeedResult pf (NewClient k) Do taskId)) =
       [Some k]"
    "map (\<lambda>r. Header r ''Authorization'') (sent (Upscale (NewClient k) Do taskId position cbs)) =
       [Some k]"
    "map (\<lambda>r. Header r ''Authorization'') (sent (Faceswap (NewClient k) Do target face)) =
       [Some k]"
    by (simp_all add: Imagine_steps ImagineResult_steps DescribeResult_steps Seed_steps
        SeedResult_steps Upscale_steps Faceswap_steps sent_def json_request_def NewClient_def
        Let_def split: sum.splits option.splits)
  have form: "list_all (\<lambda>r. Header r ''Authorization'' = Some k)
       (sent (Describe (NewClient k) Do bnd (Reader q fail) cbs))"
    "list_all (\<lambda>r. Header r ''Authorization'' = Some k)
       (sent (Describe2 (NewClient k) Do bnd (Reader q fail) cbs))" for q fail
    by (simp_all add: Describe_steps Describe2_steps sent_def form_request_def NewClient_def
        Let_def split: sum.splits option.splits)
  have form_all: "list_all (\<lambda>r. Header r ''Authorization'' = Some k)
       (sent (Describe (NewClient k) Do bnd img cbs))"
    "list_all (\<lambda>r. Header r ''Authorization'' = Some k)
       (sent (Describe2 (NewClient k) Do bnd img cbs))"
    using form by (cases img, simp)+
  have form_one: "map (\<lambda>r. Header r ''Authorization'')
       (sent (Describe (NewClient k) Do bnd (Reader p None) cbs)) = [Some k]"
    "map (\<lambda>r. Header r ''Authorization'')
       (sent (Describe2 (NewClient k) Do bnd (Reader p None) cbs)) = [Some k]"
    by (simp_all add: Describe_steps Describe2_steps sent_def form_request_def NewClient_def
        Let_def split: sum.splits option.splits)
  from json form_all form_one show ?thesis by blast
qed

theorem C6_authorization_is_the_credential_witness:
  "map (\<lambda>r. Header r ''Authorization'')
     (sent (Imagine (NewClient ''secret'') (reply 200 (JObject [(''taskId'', JString ''T1'')]))
        ''a red fox'' ''fast'' [])) = [Some ''secret''] \<and>
   map (\<lambda>r. Header r ''Authorization'')
     (sent (Describe2 (NewClient ''secret'') refuse ''b'' (Reader ''abc'' None) [''u''])) =
     [Some ''secret'']"
  using C6_authorization_is_the_credential [of "''secret''"
      "reply 200 (JObject [(''taskId'', JString ''T1'')])" "''a red fox''" "''fast''" "[]"
      "\<lambda>q. Some q" "''T1''" "[]" 0 "''x''" "''y''" "''b''" "''abc''" "Reader ''abc'' None"]
    C6_authorization_is_the_credential [of "''secret''" refuse "''a red fox''" "''fast''"
      "[''u'']" "\<lambda>q. Some q" "''T1''" "[]" 0 "''x''" "''y''" "''b''" "''abc''"
      "Reader ''abc'' None"]
  by simp

text \<open>C7. For every operation, if the transport returns an error for the
  request the operation sends, the operation returns that error unchanged, and
  its other result is the zero value: the empty string or the \<^verbatim>\<open>nil\<close> pointer.\<close>

theorem C7_transport_error_returned:
  fixes pf :: "rat \<Rightarrow> ('f::zero) option"
  shows
    "(map Do (sent (Imagine self Do prompt mode cbs)) = [Inl e] \<longrightarrow>
        result_of (Imagine self Do prompt mode cbs) = '''' \<and>
        error_of (Imagine self Do prompt mode cbs) = Some e) \<and>
     (map Do (sent (ImagineResult pf self Do taskId ps)) = [Inl e] \<longrightarrow>
        result_of (ImagineResult pf self Do taskId ps) = None \<and>
        error_of (ImagineResult pf self Do taskId ps) = Some e) \<and>
     (map Do (sent (Describe self Do bnd img cbs)) = [Inl e] \<longrightarrow>
        result_of (Describe self Do bnd img cbs) = '''' \<and>
        error_of (Describe self Do bnd img cbs) = Some e) \<and>
     (map Do (sent (Describe2 self Do bnd img cbs)) = [Inl e] \<longrightarrow>
        result_of (Describe2 self Do bnd img cbs) = '''' \<and>
        error_of (Describe2 self Do bnd img cbs) = Some e) \<and>
     (map Do (sent (DescribeResult pf self Do taskId)) = [Inl e] \<longrightarrow>
        result_of (DescribeResult pf self Do taskId) = None \<and>
        error_of (DescribeResult pf self Do taskId) = Some e) \<and>
     (map Do (sent (Seed self Do taskId cbs)) = [Inl e] \<longrightarrow>
        result_of (Seed self Do taskId cbs) = '''' \<and>
        error_of (Seed self Do taskId cbs) = Some e) \<and>
     (map Do (sent (SeedResult pf self Do taskId)) = [Inl e] \<longrightarrow>
        result_of (SeedResult pf self Do taskId) = None \<and>
        error_of (SeedResult pf self Do taskId) = Some e) \<and>
     (map Do (sent (Upscale self Do taskId position cbs)) = [Inl e] \<longrightarrow>
        result_of (Upscale self Do taskId position cbs) = '''' \<and>
        error_of (Upscale self Do taskId position cbs) = Some e) \<and>
     (map Do (sent (Faceswap self Do target face)) = [Inl e] \<longrightarrow>
        result_of (Faceswap self Do target face) = '''' \<and>
        error_of (Faceswap self Do target face) = Some e)"
proof -
  have imagine: "map Do (sent (Imagine self Do prompt mode cbs)) = [Inl e] \<longrightarrow>
        result_of (Imagine self Do prompt mode cbs) = '''' \<and>
        error_of (Imagine self Do prompt mode cbs) = Some e"
    by (simp add: Imagine_steps sent_def result_of_def error_of_def Let_def split: sum.splits)
  have imagine_result: "map Do (sent (ImagineResult pf self Do taskId ps)) = [Inl e] \<longrightarrow>
        result_of (ImagineResult pf self Do taskId ps) = None \<and>
        error_of (ImagineResult pf self Do taskId ps) = Some e"
    by (simp add: ImagineResult_steps sent_def result_of_def error_of_def Let_def
        split: sum.splits option.splits)
  have describe: "map Do (sent (Describe self Do bnd img cbs)) = [Inl e] \<longrightarrow>
        result_of (Describe self Do bnd img cbs) = '''' \<and>
        error_of (Describe self Do bnd img cbs) = Some e"
    by (cases img) (simp add: Describe_steps sent_def result_of_def error_of_def Let_def
        split: sum.splits option.splits)
  have describe2: "map Do (sent (Describe2 self Do bnd img cbs)) = [Inl e] \<longrightarrow>
        result_of (Describe2 self Do bnd img cbs) = '''' \<and>
        error_of (Describe2 self Do bnd img cbs) = Some e"
    by (cases img) (simp add: Describe2_steps sent_def result_of_def error_of_def Let_def
        split: sum.splits option.splits)
  have describe_result: "map Do (sent (DescribeResult pf self Do taskId)) = [Inl e] \<longrightarrow>
        result_of (DescribeResult pf self Do taskId) = None \<and>
        error_of (DescribeResult pf self Do taskId) = Some e"
    by (simp add: DescribeResult_steps sent_def result_of_def error_of_def Let_def
        split: sum.splits option.splits)
  have seed: "map Do (sent (Seed self Do taskId cbs)) = [Inl e] \<longrightarrow>
        result_of (Seed self Do taskId cbs) = '''' \<and>
        error_of (Seed self Do taskId cbs) = Some e"
    by (simp add: Seed_steps sent_def result_of_def error_of_def Let_def split: sum.splits)
  have seed_result: "map Do (sent (SeedResult pf self Do taskId)) = [Inl e] \<longrightarrow>
        result_of (SeedResult pf self Do taskId) = None \<and>
        error_of (SeedResult pf self Do taskId) = Some e"
    by (simp add: SeedResult_steps sent_def result_of_def error_of_def Let_def
        split: sum.splits option.splits)
  have upscale: "map Do (sent (Upscale self Do taskId position cbs)) = [Inl e] \<longrightarrow>
        result_of (Upscale self Do taskId position cbs) = '''' \<and>
        error_of (Upscale self Do taskId position cbs) = Some e"
    by (simp add: Upscale_steps sent_def result_of_def error_of_def Let_def split: sum.splits)
  have faceswap: "map Do (sent (Faceswap self Do target face)) = [Inl e] \<longrightarrow>
        result_of (Faceswap self Do target face) = '''' \<and>
        error_of (Faceswap self Do target face) = Some e"
    by (simp add: Faceswap_steps sent_def result_of_def error_of_def Let_def split: sum.splits)
  from imagine imagine_result describe describe2 describe_result seed seed_result upscale faceswap
  show ?thesis by blast
qed

theorem C7_transport_error_returned_witness:
  "map refuse (sent (Imagine (NewClient ''key'') refuse ''a red fox'' ''fast'' [])) =
     [Inl (IOError ''connection refused'')] \<and>
   result_of (Imagine (NewClient ''key'') refuse ''a red fox'' ''fast'' []) = '''' \<and>
   error_of (Imagine (NewClient ''key'') refuse ''a red fox'' ''fast'' []) =
     Some (IOError ''connection refused'') \<and>
   map refuse (sent (ImagineResult (\<lambda>q. Some q) (NewClient ''key'') refuse ''T1'' [2])) =
     [Inl (IOError ''connection refused'')] \<and>
   result_of (ImagineResult (\<lambda>q. Some q) (NewClient ''key'') refuse ''T1'' [2]) = None \<and>
   error_of (ImagineResult (\<lambda>q. Some q) (NewClient ''key'') refuse ''T1'' [2]) =
     Some (IOError ''connection refused'') \<and>
   map refuse (sent (Describe2 (NewClient ''key'') refuse ''b'' (Reader ''abc'' None) [])) =
     [Inl (IOError ''connection refused'')] \<and>
   result_of (Describe2 (NewClient ''key'') refuse ''b'' (Reader ''abc'' None) []) = '''' \<and>
   error_of (Describe2 (NewClient ''key'') refuse ''b'' (Reader ''abc'' None) []) =
     Some (IOError ''connection refused'')"
proof -
  have sending:
    "map refuse (sent (Imagine (NewClient ''key'') refuse ''a red fox'' ''fast'' [])) =
       [Inl (IOError ''connection refused'')]"
    "map refuse (sent (ImagineResult (\<lambda>q. Some q) (NewClient ''key'') refuse ''T1'' [2])) =
       [Inl (IOError ''connection refused'')]"
    "map refuse (sent (Describe2 (NewClient ''key'') refuse ''b'' (Reader ''abc'' None) [])) =
       [Inl (IOError ''connection refused'')]"
    by (simp_all add: Imagine_steps ImagineResult_steps Describe2_steps sent_def refuse_def)
  with C7_transport_error_returned [of refuse "NewClient ''key''" "''a red fox''" "''fast''" "[]"
      "IOError ''connection refused''" "\<lambda>q. Some q" "''T1''" "[2]" "''b''"
      "Reader ''abc'' None" 0 "''x''" "''y''"]
  show ?thesis by blast
qed

text \<open>C8. If the body of the request cannot be built, the operation returns
  that error at once and hands no request to the transport: in \<open>postJson\<close> when
  the JSON encoder fails (lines 223--226), in either \<^verbatim>\<open>Describe\<close> when the image
  stream fails while it is copied into the multipart body (lines 97--99 and
  357--359).\<close>

theorem C8_encode_error_sends_nothing:
  "(Encoder_Encode v = Inl e \<longrightarrow> postJson self Do path v um resp = (resp, Some e, [])) \<and>
   Describe self Do bnd (Reader p (Some e)) cbs = ('''', Some e, []) \<and>
   Describe2 self Do bnd (Reader p (Some e)) cbs = ('''', Some e, [])"
  by (simp add: postJson_def Describe_steps Describe2_steps)

theorem C8_encode_error_sends_nothing_witness:
  "Encoder_Encode (GoStruct [(''taskId'', False, GoString ''T1''), (''hook'', False, GoFunc)]) =
     Inl UnsupportedTypeError \<and>
   postJson (NewClient ''key'') (reply 200 JNull) ''/imagine''
     (GoStruct [(''taskId'', False, GoString ''T1''), (''hook'', False, GoFunc)])
     (unmarshal ImagineResponse_fields ''ImagineResponse'') \<lparr>ImagineResponse_TaskId = ''''\<rparr> =
     (\<lparr>ImagineResponse_TaskId = ''''\<rparr>, Some UnsupportedTypeError, []) \<and>
   Describe (NewClient ''key'') (reply 200 JNull) ''b''
     (Reader ''ab'' (Some (IOError ''read failed''))) [''u''] =
     ('''', Some (IOError ''read failed''), []) \<and>
   Describe2 (NewClient ''key'') (reply 200 JNull) ''b''
     (Reader ''ab'' (Some (IOError ''read failed''))) [''u''] =
     ('''', Some (IOError ''read failed''), [])"
proof -
  have enc: "Encoder_Encode (GoStruct [(''taskId'', False, GoString ''T1''),
      (''hook'', False, GoFunc)]) = Inl UnsupportedTypeError"
    by (simp add: Encoder_Encode_def)
  from enc C8_encode_error_sends_nothing [of
      "GoStruct [(''taskId'', False, GoString ''T1''), (''hook'', False, GoFunc)]"
      UnsupportedTypeError "NewClient ''key''" "reply 200 JNull" "''/imagine''"
      "unmarshal ImagineResponse_fields ''ImagineResponse''"
      "\<lparr>ImagineResponse_TaskId = ''''\<rparr>" "''b''" "''ab''" "[''u'']"]
    C8_encode_error_sends_nothing [of
      "GoStruct [(''taskId'', False, GoString ''T1''), (''hook'', False, GoFunc)]"
      "IOError ''read failed''" "NewClient ''key''" "reply 200 JNull" "''/imagine''"
      "unmarshal ImagineResponse_fields ''ImagineResponse''"
      "\<lparr>ImagineResponse_TaskId = ''''\<rparr>" "''b''" "''ab''" "[''u'']"]
  show ?thesis by blast
qed

text \<open>C9, as stated, fails for the callback URL of \<^verbatim>\<open>Describe\<close>: with no value
  the empty string is not used in its place. The guard
  \<^verbatim>\<open>if len(callbackURL) >= 1\<close> (lines 101 and 361) writes no form field at all,
  while the empty string as the value writes a \<^verbatim>\<open>callbackURL\<close> field with empty
  content: the two requests differ.\<close>

theorem C9_counterexample:
  "map body_parts (map ReqBody
     (sent (Describe (NewClient ''key'') refuse ''b'' (Reader ''abc'' None) []))) =
     [ [image_part ''application/octet-stream'' ''abc''] ] \<and>
   map body_parts (map ReqBody
     (sent (Describe (NewClient ''key'') refuse ''b'' (Reader ''abc'' None) ['''']))) =
     [ [image_part ''application/octet-stream'' ''abc'', field_part ''''] ] \<and>
   map body_parts (map ReqBody
     (sent (Describe2 (NewClient ''key'') refuse ''b'' (Reader ''abc'' None) []))) =
     [ [image_part ''image/jpeg'' ''abc''] ] \<and>
   map body_parts (map ReqBody
     (sent (Describe2 (NewClient ''key'') refuse ''b'' (Reader ''abc'' None) ['''']))) =
     [ [image_part ''image/jpeg'' ''abc'', field_part ''''] ] \<and>
   sent (Describe (NewClient ''key'') refuse ''b'' (Reader ''abc'' None) []) \<noteq>
     sent (Describe (NewClient ''key'') refuse ''b'' (Reader ''abc'' None) ['''']) \<and>
   sent (Describe2 (NewClient ''key'') refuse ''b'' (Reader ''abc'' None) []) \<noteq>
     sent (Describe2 (NewClient ''key'') refuse ''b'' (Reader ''abc'' None) [''''])"
  by (simp add: Describe_steps Describe2_steps sent_def refuse_def form_request_def
      describe_body_def)

text \<open>C9, amended. For every variadic optional parameter (the callback URL of
  \<^verbatim>\<open>Imagine\<close>, \<^verbatim>\<open>Describe\<close>, \<^verbatim>\<open>Seed\<close> and \<^verbatim>\<open>Upscale\<close>, the position of
  \<^verbatim>\<open>ImagineResult\<close>), only the first supplied value is used: the request carries
  the first value, and when two or more values are supplied all but the first
  are ignored, the call being the call with the first value alone. When no
  value is supplied, \<^verbatim>\<open>Imagine\<close>, \<^verbatim>\<open>Seed\<close>, \<^verbatim>\<open>Upscale\<close> and \<^verbatim>\<open>ImagineResult\<close> use
  the zero value of the type (the empty string or 0): the call is the call with
  that value. \<^verbatim>\<open>Describe\<close> with no value uses none: it writes the image part
  and no \<^verbatim>\<open>callbackURL\<close> form field, while every supplied value, the empty
  string included, writes a \<^verbatim>\<open>callbackURL\<close> field with that value.\<close>

theorem C9_first_value_only:
  fixes pf :: "rat \<Rightarrow> ('f::zero) option"
  shows
    \<open>getArrayFirstOrEmpty z [] = z \<and>
     getArrayFirstOrEmpty z (x # rest) = x \<and>
     map ReqBody (sent (Imagine self Do prompt mode (c # cs))) =
       [JSONBody (JObject ([(''prompt'', JString prompt)] @
                           (if mode = '''' then [] else [(''mode'', JString mode)]) @
                           (if c = '''' then [] else [(''callbackURL'', JString c)])))] \<and>
     map ReqBody (sent (Seed self Do taskId (c # cs))) =
       [JSONBody (JObject [(''taskId'', JString taskId), (''callbackURL'', JString c)])] \<and>
     map ReqBody (sent (Upscale self Do taskId position (c # cs))) =
       [JSONBody (JObject ([(''taskId'', JString taskId),
                            (''position'', JNumber (of_int (sint position)))] @
                           (if c = '''' then [] else [(''callback_url'', JString c)])))] \<and>
     map ReqBody (sent (ImagineResult pf self Do taskId (n # ns))) =
       [JSONBody (JObject ([(''taskId'', JString taskId)] @
                           (if n = 0 then [] else [(''position'', JNumber (of_int (sint n)))])))] \<and>
     map body_parts (map ReqBody (sent (Describe self Do bnd (Reader p None) (c # cs)))) =
       [ [\<lparr>PartHeader = [''Content-Disposition'' \<mapsto>
                            ''form-data; name="image"; filename="image.jpg"'',
                          ''Content-Type'' \<mapsto> ''application/octet-stream''],
            PartData = p\<rparr>,
          \<lparr>PartHeader = [''Content-Disposition'' \<mapsto> ''form-data; name="callbackURL"''],
            PartData = c\<rparr>] ] \<and>
     map body_parts (map ReqBody (sent (Describe2 self Do bnd (Reader p None) (c # cs)))) =
       [ [\<lparr>PartHeader = [''Content-Disposition'' \<mapsto>
                            ''form-data; name="image"; filename="image.jpg"'',
                          ''Content-Type'' \<mapsto> ''image/jpeg''],
            PartData = p\<rparr>,
          \<lparr>PartHeader = [''Content-Disposition'' \<mapsto> ''form-data; name="callbackURL"''],
            PartData = c\<rparr>] ] \<and>
     Imagine self Do prompt mode (c # cs) = Imagine self Do prompt mode [c] \<and>
     Seed self Do taskId (c # cs) = Seed self Do taskId [c] \<and>
     Upscale self Do taskId position (c # cs) = Upscale self Do taskId position [c] \<and>
     ImagineResult pf self Do taskId (n # ns) = ImagineResult pf self Do taskId [n] \<and>
     Describe self Do bnd img (c # cs) = Describe self Do bnd img [c] \<and>
     Describe2 self Do bnd img (c # cs) = Describe2 self Do bnd img [c] \<and>
     Imagine self Do prompt mode [] = Imagine self Do prompt mode [''''] \<and>
     Seed self Do taskId [] = Seed self Do taskId [''''] \<and>
     Upscale self Do taskId position [] = Upscale self Do taskId position [''''] \<and>
     ImagineResult pf self Do taskId [] = ImagineResult pf self Do taskId [0] \<and>
     map body_parts (map ReqBody (sent (Describe self Do bnd (Reader p None) []))) =
       [ [\<lparr>PartHeader = [''Content-Disposition'' \<mapsto>
                            ''form-data; name="image"; filename="image.jpg"'',
                          ''Content-Type'' \<mapsto> ''application/octet-stream''],
            PartData = p\<rparr>] ] \<and>
     map body_parts (map ReqBody (sent (Describe2 self Do bnd (Reader p None) []))) =
       [ [\<lparr>PartHeader = [''Content-Disposition'' \<mapsto>
                            ''form-data; name="image"; filename="image.jpg"'',
                          ''Content-Type'' \<mapsto> ''image/jpeg''],
            PartData = p\<rparr>] ]\<close>
proof -
  have first: "getArrayFirstOrEmpty z [] = z" "getArrayFirstOrEmpty z (x # rest) = x"
    by (simp_all add: getArrayFirstOrEmpty_def)
  have carried:
    "map ReqBody (sent (Imagine self Do prompt mode (c # cs))) =
       [JSONBody (JObject ([(''prompt'', JString prompt)] @
                           (if mode = '''' then [] else [(''mode'', JString mode)]) @
                           (if c = '''' then [] else [(''callbackURL'', JString c)])))]"
    "map ReqBody (sent (Seed self Do taskId (c # cs))) =
       [JSONBody (JObject [(''taskId'', JString taskId), (''callbackURL'', JString c)])]"
    "map ReqBody (sent (Upscale self Do taskId position (c # cs))) =
       [JSONBody (JObject ([(''taskId'', JString taskId),
                            (''position'', JNumber (of_int (sint position)))] @
                           (if c = '''' then [] else [(''callback_url'', JString c)])))]"
    "map ReqBody (sent (ImagineResult pf self Do taskId (n # ns))) =
       [JSONBody (JObject ([(''taskId'', JString taskId)] @
                           (if n = 0 then [] else [(''position'', JNumber (of_int (sint n)))])))]"
    by (simp_all add: Imagine_steps Seed_steps Upscale_steps ImagineResult_steps
        getArrayFirstOrEmpty_Cons sent_def json_request_def ImagineBody_def SeedBody_def
        UpscaleBody_def ResultBody_def Let_def split: sum.splits option.splits)
  have carried_form:
    \<open>map body_parts (map ReqBody (sent (Describe self Do bnd (Reader p None) (c # cs)))) =
       [ [\<lparr>PartHeader = [''Content-Disposition'' \<mapsto>
                            ''form-data; name="image"; filename="image.jpg"'',
                          ''Content-Type'' \<mapsto> ''application/octet-stream''],
            PartData = p\<rparr>,
          \<lparr>PartHeader = [''Content-Disposition'' \<mapsto> ''form-data; name="callbackURL"''],
            PartData = c\<rparr>] ]\<close>
    \<open>map body_parts (map ReqBody (sent (Describe2 self Do bnd (Reader p None) (c # cs)))) =
       [ [\<lparr>PartHeader = [''Content-Disposition'' \<mapsto>
                            ''form-data; name="image"; filename="image.jpg"'',
                          ''Content-Type'' \<mapsto> ''image/jpeg''],
            PartData = p\<rparr>,
          \<lparr>PartHeader = [''Content-Disposition'' \<mapsto> ''form-data; name="callbackURL"''],
            PartData = c\<rparr>] ]\<close>
    by (simp_all add: Describe_steps Describe2_steps sent_def form_request_def describe_body_def
        image_part_def field_part_def Let_def split: sum.splits option.splits)
  have ignored: "Imagine self Do prompt mode (c # cs) = Imagine self Do prompt mode [c]"
    "Seed self Do taskId (c # cs) = Seed self Do taskId [c]"
    "Upscale self Do taskId position (c # cs) = Upscale self Do taskId position [c]"
    "ImagineResult pf self Do taskId (n # ns) = ImagineResult pf self Do taskId [n]"
    by (simp_all add: Imagine_def Seed_def Upscale_def ImagineResult_def
        getArrayFirstOrEmpty_Cons)
  have describe: "Describe self Do bnd img (c # cs) = Describe self Do bnd img [c]"
    by (cases img) (simp add: Describe_steps describe_body_def split: option.splits)
  have describe2: "Describe2 self Do bnd img (c # cs) = Describe2 self Do bnd img [c]"
    by (cases img) (simp add: Describe2_steps describe_body_def split: option.splits)
  have none: "Imagine self Do prompt mode [] = Imagine self Do prompt mode ['''']"
    "Seed self Do taskId [] = Seed self Do taskId ['''']"
    "Upscale self Do taskId position [] = Upscale self Do taskId position ['''']"
    "ImagineResult pf self Do taskId [] = ImagineResult pf self Do taskId [0]"
    by (simp_all add: Imagine_def Seed_def Upscale_def ImagineResult_def
        getArrayFirstOrEmpty_Nil getArrayFirstOrEmpty_Cons)
  have absent:
    \<open>map body_parts (map ReqBody (sent (Describe self Do bnd (Reader p None) []))) =
       [ [\<lparr>PartHeader = [''Content-Disposition'' \<mapsto>
                            ''form-data; name="image"; filename="image.jpg"'',
                          ''Content-Type'' \<mapsto> ''application/octet-stream''],
            PartData = p\<rparr>] ]\<close>
    \<open>map body_parts (map ReqBody (sent (Describe2 self Do bnd (Reader p None) []))) =
       [ [\<lparr>PartHeader = [''Content-Disposition'' \<mapsto>
                            ''form-data; name="image"; filename="image.jpg"'',
                          ''Content-Type'' \<mapsto> ''image/jpeg''],
            PartData = p\<rparr>] ]\<close>
    by (simp_all add: Describe_steps Describe2_steps sent_def form_request_def describe_body_def
        image_part_def Let_def split: sum.splits option.splits)
  show ?thesis
    by (intro conjI first carried carried_form ignored describe describe2 none absent)
qed

theorem C9_first_value_only_witness:
  \<open>getArrayFirstOrEmpty (0::goint) [] = 0 \<and>
   getArrayFirstOrEmpty (0::goint) [3, 4, 5] = 3 \<and>
   map ReqBody (sent (Imagine (NewClient ''key'') refuse ''a red fox'' ''fast'' [''u'', ''v''])) =
     [JSONBody (JObject [(''prompt'', JString ''a red fox''), (''mode'', JString ''fast''),
                         (''callbackURL'', JString ''u'')])] \<and>
   map ReqBody (sent (ImagineResult (\<lambda>q. Some q) (NewClient ''key'') refuse ''T1'' [3, 4])) =
     [JSONBody (JObject [(''taskId'', JString ''T1''), (''position'', JNumber 3)])] \<and>
   map body_parts (map ReqBody
     (sent (Describe2 (NewClient ''key'') refuse ''b'' (Reader ''abc'' None) [''u'', ''v'']))) =
     [ [\<lparr>PartHeader = [''Content-Disposition'' \<mapsto>
                          ''form-data; name="image"; filename="image.jpg"'',
                        ''Content-Type'' \<mapsto> ''image/jpeg''],
          PartData = ''abc''\<rparr>,
        \<lparr>PartHeader = [''Content-Disposition'' \<mapsto> ''form-data; name="callbackURL"''],
          PartData = ''u''\<rparr>] ] \<and>
   Imagine (NewClient ''key'') refuse ''a red fox'' ''fast'' [''u'', ''v''] =
     Imagine (NewClient ''key'') refuse ''a red fox'' ''fast'' [''u''] \<and>
   Describe2 (NewClient ''key'') refuse ''b'' (Reader ''abc'' None) [''u'', ''v''] =
     Describe2 (NewClient ''key'') refuse ''b'' (Reader ''abc'' None) [''u''] \<and>
   ImagineResult (\<lambda>q. Some q) (NewClient ''key'') refuse ''T1'' [3, 4] =
     ImagineResult (\<lambda>q. Some q) (NewClient ''key'') refuse ''T1'' [3]\<close>
proof -
  note t = C9_first_value_only [where z = "0::goint" and x = 3 and rest = "[4, 5]"
      and self = "NewClient ''key''" and Do = refuse and prompt = "''a red fox''"
      and mode = "''fast''" and taskId = "''T1''" and position = 0 and pf = "\<lambda>q. Some q"
      and c = "''u''" and cs = "[''v'']" and n = 3 and ns = "[4]" and bnd = "''b''"
      and img = "Reader ''abc'' None" and p = "''abc''"]
  note t2 = t [THEN conjunct2]
  note t3 = t2 [THEN conjunct2]
  note t6 = t3 [THEN conjunct2, THEN conjunct2, THEN conjunct2]
  note t8 = t6 [THEN conjunct2, THEN conjunct2]
  note t9 = t8 [THEN conjunct2]
  note t12 = t9 [THEN conjunct2, THEN conjunct2, THEN conjunct2]
  note t14 = t12 [THEN conjunct2, THEN conjunct2]
  have zero: "getArrayFirstOrEmpty (0::goint) [] = 0"
    using t [THEN conjunct1] by simp
  have first: "getArrayFirstOrEmpty (0::goint) [3, 4, 5] = 3"
    using t2 [THEN conjunct1] by simp
  have imagine:
    "map ReqBody (sent (Imagine (NewClient ''key'') refuse ''a red fox'' ''fast'' [''u'', ''v''])) =
       [JSONBody (JObject [(''prompt'', JString ''a red fox''), (''mode'', JString ''fast''),
                           (''callbackURL'', JString ''u'')])]"
    using t3 [THEN conjunct1] by simp
  have imagine_result:
    "map ReqBody (sent (ImagineResult (\<lambda>q. Some q) (NewClient ''key'') refuse ''T1'' [3, 4])) =
       [JSONBody (JObject [(''taskId'', JString ''T1''), (''position'', JNumber 3)])]"
    using t6 [THEN conjunct1] by simp
  note describe2 = t8 [THEN conjunct1]
  note imagine_eq = t9 [THEN conjunct1]
  note imagine_result_eq = t12 [THEN conjunct1]
  note describe2_eq = t14 [THEN conjunct1]
  show ?thesis
    by (intro conjI zero first imagine imagine_result describe2 imagine_eq describe2_eq
        imagine_result_eq)
qed

text \<open>C10. For every task identifier, \<^verbatim>\<open>ImagineResult(taskId, 0)\<close> builds the
  request of \<^verbatim>\<open>ImagineResult(taskId)\<close>: the position 0 is the zero value that
  \<open>getArrayFirstOrEmpty\<close> gives for no position, and \<^verbatim>\<open>omitempty\<close> drops it from
  the body, which holds the task identifier alone. The two calls agree in the
  request, the result and the error.\<close>

theorem C10_position_zero_is_omitted:
  fixes pf :: "rat \<Rightarrow> ('f::zero) option"
  shows "ImagineResult pf self Do taskId [0] = ImagineResult pf self Do taskId [] \<and>
         map ReqBody (sent (ImagineResult pf self Do taskId [0])) =
           [JSONBody (JObject [(''taskId'', JString taskId)])] \<and>
         map (body_member ''position'') (map ReqBody (sent (ImagineResult pf self Do taskId [0]))) =
           [None]"
  by (simp add: ImagineResult_steps getArrayFirstOrEmpty_Nil getArrayFirstOrEmpty_Cons sent_def
      json_request_def ResultBody_def Let_def split: sum.splits option.splits)

theorem C10_position_zero_is_omitted_witness:
  "ImagineResult (\<lambda>q. Some q) (NewClient ''key'') refuse ''T1'' [0] =
     ImagineResult (\<lambda>q. Some q) (NewClient ''key'') refuse ''T1'' [] \<and>
   map ReqBody (sent (ImagineResult (\<lambda>q. Some q) (NewClient ''key'') refuse ''T1'' [0])) =
     [JSONBody (JObject [(''taskId'', JString ''T1'')])] \<and>
   map (body_member ''position'')
     (map ReqBody (sent (ImagineResult (\<lambda>q. Some q) (NewClient ''key'') refuse ''T1'' [0]))) =
     [None]"
  by (rule C10_position_zero_is_omitted)

end
